theory Spec2Isabelle
  imports Complex_Main "HOL-Library.AList" "HOL-Library.Log_Nat"
begin

section \<open>Trading bot backend (main.py): data model\<close>

text \<open>
  A Python float is an IEEE 754 double: it is modelled by the rational number it denotes,
  and every operation on floats by the exact operation followed by the rounding to the
  nearest double (section on double-precision arithmetic below). Python ints are \<open>int\<close>. Timestamps are seconds as rationals, so that
  \<^verbatim>\<open>(a - b).total_seconds()\<close> is a subtraction. Dictionaries whose iteration order is
  observable (the trigger registry) are association lists with \<open>AList.update\<close> for
  \<^verbatim>\<open>d[k] = v\<close> and \<open>AList.delete\<close> for \<^verbatim>\<open>del d[k]\<close>. Fields that no modelled
  function reads (candle_size, target_multiplier, trailing_points, the tokens of the
  session) are left out of the records.
\<close>

datatype OrderType = LIVE_PRICE | POINTS_TRIGGER | PERCENTAGE_TRIGGER | CANDLE_TRIGGER

datatype SellOrderType = MANUAL_EXIT | POINTS_STOP | PERCENTAGE_STOP | CANDLE_STOP

datatype TradeMode = SINGLE | MULTI

datatype trigger_kind = buy_trigger | sell_trigger

text \<open>Config.ORDER_TIMEOUT_MINUTES and Config.AUTO_EXIT_TIME = time(15, 25), the latter
  as seconds since midnight.\<close>

definition ORDER_TIMEOUT_MINUTES :: rat where
  "ORDER_TIMEOUT_MINUTES = 5"

definition AUTO_EXIT_TIME :: rat where
  "AUTO_EXIT_TIME = 15 * 3600 + 25 * 60"

text \<open>The dictionary stored in \<^verbatim>\<open>bot_state.active_orders[trigger_id]\<close>. A buy trigger has
  quantity, order_type, trade_mode and initial_price; a sell trigger has sell_type; the
  fields of the other kind are never read for a trigger (they hold a default here).\<close>

record trigger =
  trigger_type :: trigger_kind
  symbol :: string
  exchange :: string
  symbol_token :: string
  quantity :: int
  order_type :: OrderType
  trade_mode :: TradeMode
  sell_type :: SellOrderType
  points :: "rat option"
  percentage :: "rat option"
  initial_price :: rat
  created_at :: rat
  status :: string

text \<open>One entry of the broker's position list, with the numeric strings already parsed
  (\<^verbatim>\<open>int(pos["netqty"])\<close>, \<^verbatim>\<open>float(pos["avgprice"])\<close>). The simulated exchange keeps the
  same dictionaries, so the record carries its bookkeeping fields as well.\<close>

record position =
  symboltoken :: string
  tradingsymbol :: string
  pos_exchange :: string
  netqty :: int
  avgprice :: rat
  ltp :: rat
  pnl :: rat
  buyqty :: int
  sellqty :: int
  buyvalue :: rat
  sellvalue :: rat

text \<open>The JSON payload of placeOrder; variety, producttype, duration, price and
  triggerprice are constants of the source.\<close>

datatype order_payload =
  Payload (p_tradingsymbol: string) (p_symboltoken: string) (p_transactiontype: string)
    (p_exchange: string) (p_ordertype: string) (p_quantity: int)

datatype HTTPException = HTTPException nat

text \<open>The broker as main.py sees it through HTTP: what getPosition answers (\<open>None\<close> when
  the request fails, answers another status than 200 or carries no list) and what
  placeOrder answers to a payload (\<open>None\<close> when the order is not accepted). One answer
  per pass of a monitor: the positions are taken not to change during one pass.\<close>

record broker =
  getPosition :: "position list option"
  placeOrder :: "order_payload \<Rightarrow> string option"

record TradingBotState =
  authenticated :: bool
  scrip_master :: "string \<rightharpoonup> string"
  active_orders :: "(string \<times> trigger) list"
  price_data :: "string \<rightharpoonup> rat"
  bot_active :: bool

record BuyOrderRequest =
  req_symbol :: string
  req_exchange :: string
  req_quantity :: int
  req_order_type :: OrderType
  req_trade_mode :: TradeMode
  req_points :: "rat option"
  req_percentage :: "rat option"

record SellOrderRequest =
  sreq_symbol :: string
  sreq_exchange :: string
  sreq_sell_type :: SellOrderType
  sreq_points :: "rat option"
  sreq_percentage :: "rat option"

section \<open>Trading bot backend: operations\<close>

text \<open>\<^verbatim>\<open>bot_state.price_data.get(symbol_token, {}).get("ltp", 0)\<close>\<close>

definition get_ltp :: "(string \<rightharpoonup> rat) \<Rightarrow> string \<Rightarrow> rat" where
  "get_ltp pd tok = (case pd tok of None \<Rightarrow> 0 | Some p \<Rightarrow> p)"

text \<open>get_symbol_token: the key is \<^verbatim>\<open>f"{symbol}-{exchange}"\<close>; a missing key raises.\<close>

definition get_symbol_token :: "TradingBotState \<Rightarrow> string \<Rightarrow> string \<Rightarrow> HTTPException + string" where
  "get_symbol_token s smb exch =
     (case scrip_master s (smb @ ''-'' @ exch) of
        None \<Rightarrow> Inl (HTTPException 404)
      | Some tok \<Rightarrow> Inr tok)"

text \<open>get_positions: get_headers raises when the bot is not authenticated; every exception
  leaves as HTTPException 500.\<close>

definition get_positions :: "TradingBotState \<Rightarrow> broker \<Rightarrow> HTTPException + position list" where
  "get_positions s b =
     (if \<not> authenticated s then Inl (HTTPException 500)
      else case getPosition b of
             None \<Rightarrow> Inl (HTTPException 500)
           | Some ps \<Rightarrow> Inr ps)"

text \<open>The loop of execute_market_order over the positions: the net quantity of the first
  position with this symbol token and a positive net quantity; 0 when there is none.\<close>

fun find_sell_quantity :: "string \<Rightarrow> position list \<Rightarrow> int" where
  "find_sell_quantity tok [] = 0"
| "find_sell_quantity tok (pos # rest) =
     (if symboltoken pos = tok \<and> netqty pos > 0 then netqty pos
      else find_sell_quantity tok rest)"

text \<open>execute_market_order returns its result and the payloads it has posted to placeOrder
  (none or one). Every exception inside leaves as HTTPException 500.\<close>

definition post_order ::
  "TradingBotState \<Rightarrow> broker \<Rightarrow> order_payload \<Rightarrow> (HTTPException + string) \<times> order_payload list" where
  "post_order s b payload =
     (if \<not> authenticated s then (Inl (HTTPException 500), [])
      else case placeOrder b payload of
             Some order_id \<Rightarrow> (Inr order_id, [payload])
           | None \<Rightarrow> (Inl (HTTPException 500), [payload]))"

definition execute_market_order ::
  "TradingBotState \<Rightarrow> broker \<Rightarrow> string \<Rightarrow> string \<Rightarrow> string \<Rightarrow> int \<Rightarrow> string
     \<Rightarrow> (HTTPException + string) \<times> order_payload list" where
  "execute_market_order s b smb exch tok qty transaction_type =
     (if transaction_type = ''SELL'' \<and> qty = 0 then
        (case get_positions s b of
           Inl e \<Rightarrow> (Inl (HTTPException 500), [])
         | Inr positions \<Rightarrow>
             (let qty' = find_sell_quantity tok positions in
              if qty' = 0 then (Inl (HTTPException 500), [])
              else post_order s b (Payload smb tok transaction_type exch ''MARKET'' qty')))
      else post_order s b (Payload smb tok transaction_type exch ''MARKET'' qty))"

subsection \<open>Double-precision arithmetic\<close>

text \<open>
  The nearest integer, a tie going to the even one.
\<close>

definition round_half_even :: "rat \<Rightarrow> int" where
  "round_half_even x =
     (let f = floor x; d = x - of_int f
      in if d < 1 / 2 then f else if d > 1 / 2 then f + 1 else if even f then f else f + 1)"

text \<open>
  The exponent \<open>e\<close> of a rational \<open>x \<noteq> 0\<close>, that is \<open>2 ^ e \<le> \<bar>x\<bar> < 2 ^ (e + 1)\<close>, from the bit
  lengths of numerator and denominator.
\<close>

definition float_exponent :: "rat \<Rightarrow> int" where
  "float_exponent x =
     (let (p, q) = quotient_of \<bar>x\<bar>; k = bitlen p - bitlen q
      in if 2 powi k \<le> \<bar>x\<bar> then k else k - 1)"

text \<open>
  Rounding to the nearest double, ties to even: 53 bits of significand, and the spacing
  \<open>2 ^ - 1074\<close> of the subnormal numbers at the bottom of the range. The exponent has no
  upper limit here: infinities and NaN are not values of the model, and a result beyond
  the largest double (about \<open>1.8 * 10 ^ 308\<close>) is kept as the rational that the rounding
  gives, which compares with every double as the infinity of its sign does.
\<close>

definition round_double :: "rat \<Rightarrow> rat" where
  "round_double x =
     (if x = 0 then 0
      else (let e = max (float_exponent x - 52) (- 1074)
            in of_int (round_half_even (x / 2 powi e)) * 2 powi e))"

text \<open>The operations of Python on floats, each correctly rounded, and the conversion of an
  int that takes part in one.\<close>

definition fadd :: "rat \<Rightarrow> rat \<Rightarrow> rat" where
  "fadd a b = round_double (a + b)"

definition fsub :: "rat \<Rightarrow> rat \<Rightarrow> rat" where
  "fsub a b = round_double (a - b)"

definition fmul :: "rat \<Rightarrow> rat \<Rightarrow> rat" where
  "fmul a b = round_double (a * b)"

definition fdiv :: "rat \<Rightarrow> rat \<Rightarrow> rat" where
  "fdiv a b = round_double (a / b)"

definition float_of_int :: "int \<Rightarrow> rat" where
  "float_of_int n = round_double (of_int n)"

text \<open>Python's \<^verbatim>\<open>round(x, 2)\<close> on a float: the multiple of 1/100 nearest to the value of the
  double, a tie going to the even one, and of that decimal the nearest double.\<close>

definition py_round2 :: "rat \<Rightarrow> rat" where
  "py_round2 x = round_double (of_int (round_half_even (x * 100)) / 100)"

subsection \<open>Trigger conditions and the scheduler\<close>

text \<open>check_buy_trigger. A missing threshold (\<^verbatim>\<open>None\<close>) makes the arithmetic raise, and the
  handler returns False.\<close>

definition check_buy_trigger :: "trigger \<Rightarrow> rat \<Rightarrow> bool" where
  "check_buy_trigger trigger current_price =
     (case order_type trigger of
        POINTS_TRIGGER \<Rightarrow>
          (case points trigger of
             None \<Rightarrow> False
           | Some pts \<Rightarrow> current_price \<ge> fadd (initial_price trigger) pts)
      | PERCENTAGE_TRIGGER \<Rightarrow>
          (case percentage trigger of
             None \<Rightarrow> False
           | Some pct \<Rightarrow>
               current_price \<ge> fmul (initial_price trigger) (fadd 1 (fdiv pct 100)))
      | CANDLE_TRIGGER \<Rightarrow> False
      | LIVE_PRICE \<Rightarrow> False)"

text \<open>The loop of check_sell_trigger: the average price of the first position with the
  trigger's symbol token; 0 when there is none.\<close>

fun find_entry_price :: "string \<Rightarrow> position list \<Rightarrow> rat" where
  "find_entry_price tok [] = 0"
| "find_entry_price tok (pos # rest) =
     (if symboltoken pos = tok then avgprice pos else find_entry_price tok rest)"

definition check_sell_trigger :: "TradingBotState \<Rightarrow> broker \<Rightarrow> trigger \<Rightarrow> rat \<Rightarrow> bool" where
  "check_sell_trigger s b trigger current_price =
     (case get_positions s b of
        Inl e \<Rightarrow> False
      | Inr positions \<Rightarrow>
          (let entry_price = find_entry_price (symbol_token trigger) positions in
           if entry_price = 0 then False
           else case sell_type trigger of
                  POINTS_STOP \<Rightarrow>
                    (case points trigger of
                       None \<Rightarrow> False
                     | Some pts \<Rightarrow> current_price \<le> fsub entry_price pts)
                | PERCENTAGE_STOP \<Rightarrow>
                    (case percentage trigger of
                       None \<Rightarrow> False
                     | Some pct \<Rightarrow>
                         current_price \<le> fmul entry_price (fsub 1 (fdiv pct 100)))
                | CANDLE_STOP \<Rightarrow> False
                | MANUAL_EXIT \<Rightarrow> False))"

text \<open>execute_trigger swallows every exception of the order; what remains is the payloads
  posted.\<close>

definition execute_trigger :: "TradingBotState \<Rightarrow> broker \<Rightarrow> trigger \<Rightarrow> order_payload list" where
  "execute_trigger s b trigger =
     (case trigger_type trigger of
        buy_trigger \<Rightarrow>
          snd (execute_market_order s b (symbol trigger) (exchange trigger)
                 (symbol_token trigger) (quantity trigger) ''BUY'')
      | sell_trigger \<Rightarrow>
          snd (execute_market_order s b (symbol trigger) (exchange trigger)
                 (symbol_token trigger) 0 ''SELL''))"

text \<open>The body of the loop of trigger_monitor for one trigger: whether its id goes to
  triggers_to_remove, and the payloads posted if the trigger was executed (\<open>None\<close>: it was
  not executed).\<close>

definition monitor_one ::
  "rat \<Rightarrow> TradingBotState \<Rightarrow> broker \<Rightarrow> trigger \<Rightarrow> bool \<times> order_payload list option" where
  "monitor_one current_time s b trigger =
     (if status trigger \<noteq> ''active'' then (False, None)
      else if current_time - created_at trigger > ORDER_TIMEOUT_MINUTES * 60 then (True, None)
      else
        (let current_price = get_ltp (price_data s) (symbol_token trigger) in
         if current_price = 0 then (False, None)
         else case trigger_type trigger of
                buy_trigger \<Rightarrow>
                  (if check_buy_trigger trigger current_price
                   then (trade_mode trigger = SINGLE, Some (execute_trigger s b trigger))
                   else (False, None))
              | sell_trigger \<Rightarrow>
                  (if check_sell_trigger s b trigger current_price
                   then (True, Some (execute_trigger s b trigger))
                   else (False, None))))"

text \<open>The loop over \<^verbatim>\<open>bot_state.active_orders.items()\<close>: triggers_to_remove, and the log of
  the triggers executed, each with its id and the payloads it posted.\<close>

fun monitor_loop ::
  "rat \<Rightarrow> TradingBotState \<Rightarrow> broker \<Rightarrow> (string \<times> trigger) list
     \<Rightarrow> string list \<times> (string \<times> trigger \<times> order_payload list) list" where
  "monitor_loop current_time s b [] = ([], [])"
| "monitor_loop current_time s b ((trigger_id, trigger) # rest) =
     (let (rm, ex) = monitor_loop current_time s b rest;
          (r, f) = monitor_one current_time s b trigger
      in ((if r then [trigger_id] else []) @ rm,
          (case f of None \<Rightarrow> [] | Some ps \<Rightarrow> [(trigger_id, trigger, ps)]) @ ex))"

text \<open>The second loop: \<^verbatim>\<open>if trigger_id in active_orders: del active_orders[trigger_id]\<close>.\<close>

fun remove_triggers :: "string list \<Rightarrow> (string \<times> trigger) list \<Rightarrow> (string \<times> trigger) list" where
  "remove_triggers [] orders = orders"
| "remove_triggers (trigger_id # rest) orders =
     remove_triggers rest (AList.delete trigger_id orders)"

text \<open>One pass of the loop of trigger_monitor: the new state and the log of executed
  triggers.\<close>

definition trigger_monitor ::
  "rat \<Rightarrow> broker \<Rightarrow> TradingBotState
     \<Rightarrow> TradingBotState \<times> (string \<times> trigger \<times> order_payload list) list" where
  "trigger_monitor current_time b s =
     (if \<not> bot_active s then (s, [])
      else
        (let (triggers_to_remove, ex) = monitor_loop current_time s b (active_orders s)
         in (s\<lparr>active_orders := remove_triggers triggers_to_remove (active_orders s)\<rparr>, ex)))"

text \<open>place_buy_order. \<open>trigger_id\<close> is the value of \<^verbatim>\<open>str(uuid.uuid4())\<close> and \<open>now\<close> the
  value of \<^verbatim>\<open>datetime.now()\<close>. The result is the order id or the trigger id.\<close>

definition place_buy_order ::
  "string \<Rightarrow> rat \<Rightarrow> broker \<Rightarrow> BuyOrderRequest \<Rightarrow> TradingBotState
     \<Rightarrow> (HTTPException + string) \<times> TradingBotState \<times> order_payload list" where
  "place_buy_order trigger_id now b order_request s =
     (case get_symbol_token s (req_symbol order_request) (req_exchange order_request) of
        Inl e \<Rightarrow> (Inl (HTTPException 500), s, [])
      | Inr tok \<Rightarrow>
          if req_order_type order_request = LIVE_PRICE then
            (let (r, posted) =
               execute_market_order s b (req_symbol order_request) (req_exchange order_request)
                 tok (req_quantity order_request) ''BUY''
             in (r, s, posted))
          else
            (Inr trigger_id,
             s\<lparr>active_orders :=
                 AList.update trigger_id
                   \<lparr>trigger_type = buy_trigger,
                    symbol = req_symbol order_request,
                    exchange = req_exchange order_request,
                    symbol_token = tok,
                    quantity = req_quantity order_request,
                    order_type = req_order_type order_request,
                    trade_mode = req_trade_mode order_request,
                    sell_type = MANUAL_EXIT,
                    points = req_points order_request,
                    percentage = req_percentage order_request,
                    initial_price = get_ltp (price_data s) tok,
                    created_at = now,
                    status = ''active''\<rparr>
                   (active_orders s)\<rparr>,
             []))"

text \<open>place_sell_order.\<close>

definition place_sell_order ::
  "string \<Rightarrow> rat \<Rightarrow> broker \<Rightarrow> SellOrderRequest \<Rightarrow> TradingBotState
     \<Rightarrow> (HTTPException + string) \<times> TradingBotState \<times> order_payload list" where
  "place_sell_order trigger_id now b sell_request s =
     (case get_symbol_token s (sreq_symbol sell_request) (sreq_exchange sell_request) of
        Inl e \<Rightarrow> (Inl (HTTPException 500), s, [])
      | Inr tok \<Rightarrow>
          if sreq_sell_type sell_request = MANUAL_EXIT then
            (let (r, posted) =
               execute_market_order s b (sreq_symbol sell_request) (sreq_exchange sell_request)
                 tok 0 ''SELL''
             in (r, s, posted))
          else
            (Inr trigger_id,
             s\<lparr>active_orders :=
                 AList.update trigger_id
                   \<lparr>trigger_type = sell_trigger,
                    symbol = sreq_symbol sell_request,
                    exchange = sreq_exchange sell_request,
                    symbol_token = tok,
                    quantity = 0,
                    order_type = LIVE_PRICE,
                    trade_mode = SINGLE,
                    sell_type = sreq_sell_type sell_request,
                    points = sreq_points sell_request,
                    percentage = sreq_percentage sell_request,
                    initial_price = 0,
                    created_at = now,
                    status = ''active''\<rparr>
                   (active_orders s)\<rparr>,
             []))"

text \<open>start_bot, stop_bot, cancel_trigger.\<close>

definition start_bot :: "TradingBotState \<Rightarrow> TradingBotState" where
  "start_bot s = s\<lparr>bot_active := True\<rparr>"

definition stop_bot :: "TradingBotState \<Rightarrow> TradingBotState" where
  "stop_bot s = s\<lparr>bot_active := False, active_orders := []\<rparr>"

definition cancel_trigger :: "string \<Rightarrow> TradingBotState \<Rightarrow> HTTPException + TradingBotState" where
  "cancel_trigger trigger_id s =
     (if trigger_id \<in> fst ` set (active_orders s)
      then Inr (s\<lparr>active_orders := AList.delete trigger_id (active_orders s)\<rparr>)
      else Inl (HTTPException 404))"

text \<open>The loop of auto_exit_monitor over the positions: one execute_market_order for each
  position with a positive net quantity, its exception swallowed.\<close>

fun close_positions :: "TradingBotState \<Rightarrow> broker \<Rightarrow> position list \<Rightarrow> order_payload list" where
  "close_positions s b [] = []"
| "close_positions s b (pos # rest) =
     (if netqty pos > 0
      then snd (execute_market_order s b (tradingsymbol pos) (pos_exchange pos)
                  (symboltoken pos) 0 ''SELL'')
      else [])
     @ close_positions s b rest"

text \<open>One pass of the loop of auto_exit_monitor, \<open>current_time\<close> the time of day in seconds:
  the new state, the payloads posted and the seconds slept before the next pass. When
  get_positions raises, the outer handler takes over and the bot stays as it is.\<close>

definition auto_exit_monitor ::
  "rat \<Rightarrow> broker \<Rightarrow> TradingBotState \<Rightarrow> TradingBotState \<times> order_payload list \<times> nat" where
  "auto_exit_monitor current_time b s =
     (if current_time \<ge> AUTO_EXIT_TIME \<and> bot_active s then
        (case get_positions s b of
           Inl e \<Rightarrow> (s, [], 60)
         | Inr poss \<Rightarrow>
             (s\<lparr>bot_active := False, active_orders := []\<rparr>, close_positions s b poss, 300))
      else (s, [], 60))"

subsection \<open>Runs of the bot\<close>

text \<open>What can happen to the bot's state, one event at a time: a pass of trigger_monitor,
  the endpoints, a pass of auto_exit_monitor, and the two collaborators that write the
  state from outside (a successful login, which sets \<open>authenticated\<close> and loads the scrip
  master, and the price feed). The tasks run on one event loop and none of the modelled
  passes suspends, so a run is a sequence of events.\<close>

datatype event =
  Tick rat broker
| PlaceBuy string rat broker BuyOrderRequest
| PlaceSell string rat broker SellOrderRequest
| CancelTrigger string
| StartBot
| StopBot
| AutoExit rat broker
| Login "(string \<times> string) list"
| PriceFeed string rat

fun step ::
  "event \<Rightarrow> TradingBotState
     \<Rightarrow> TradingBotState \<times> (string \<times> trigger \<times> order_payload list) list" where
  "step (Tick now b) s = trigger_monitor now b s"
| "step (PlaceBuy trigger_id now b req) s = (fst (snd (place_buy_order trigger_id now b req s)), [])"
| "step (PlaceSell trigger_id now b req) s = (fst (snd (place_sell_order trigger_id now b req s)), [])"
| "step (CancelTrigger trigger_id) s =
     (case cancel_trigger trigger_id s of Inl e \<Rightarrow> (s, []) | Inr s' \<Rightarrow> (s', []))"
| "step StartBot s = (start_bot s, [])"
| "step StopBot s = (stop_bot s, [])"
| "step (AutoExit tod b) s = (fst (auto_exit_monitor tod b s), [])"
| "step (Login instruments) s =
     (s\<lparr>authenticated := True, scrip_master := scrip_master s ++ map_of (rev instruments)\<rparr>, [])"
| "step (PriceFeed tok p) s = (s\<lparr>price_data := (price_data s)(tok \<mapsto> p)\<rparr>, [])"

text \<open>A run: the final state and the log of the triggers executed, in order.\<close>

fun run ::
  "event list \<Rightarrow> TradingBotState
     \<Rightarrow> TradingBotState \<times> (string \<times> trigger \<times> order_payload list) list" where
  "run [] s = (s, [])"
| "run (e # es) s =
     (let (s1, ex1) = step e s; (s2, ex2) = run es s1 in (s2, ex1 @ ex2))"

text \<open>The ids that a run stores triggers under.\<close>

fun placed_id :: "event \<Rightarrow> string option" where
  "placed_id (PlaceBuy trigger_id now b req) = Some trigger_id"
| "placed_id (PlaceSell trigger_id now b req) = Some trigger_id"
| "placed_id e = None"

section \<open>Simulated exchange (mock_angelone_api.py)\<close>

text \<open>
  The order and trade dictionaries, with the numeric strings parsed (\<^verbatim>\<open>int(order["quantity"])\<close>,
  \<^verbatim>\<open>float(order["price"])\<close>): an order whose quantity or price does not parse is outside the
  model. Order and trade ids are the values of the counters they are printed from, and
  the time stamps are left out. The position dictionaries are the record \<open>position\<close> above.
\<close>

record order =
  orderid :: int
  ord_tradingsymbol :: string
  ord_symboltoken :: string
  transactiontype :: string
  ord_exchange :: string
  ordertype :: string
  price :: rat
  ord_quantity :: int
  ord_status :: string
  orderstatus :: string

record trade =
  tradeid :: int
  tr_orderid :: int
  tr_tradingsymbol :: string
  tr_exchange :: string
  tr_transactiontype :: string
  tr_quantity :: int
  tr_price :: rat
  tr_symboltoken :: string

record MockDataStore =
  orders :: "int \<rightharpoonup> order"
  trades :: "int \<rightharpoonup> trade"
  positions :: "string \<rightharpoonup> position"
  mock_price_data :: "string \<rightharpoonup> rat"
  order_counter :: int
  trade_counter :: int

record PlaceOrderRequest =
  po_tradingsymbol :: string
  po_symboltoken :: string
  po_transactiontype :: string
  po_exchange :: string
  po_ordertype :: string
  po_price :: rat
  po_quantity :: int

text \<open>MockDataStore.__init__, for given stock prices.\<close>

definition MockDataStore_init :: "(string \<rightharpoonup> rat) \<Rightarrow> MockDataStore" where
  "MockDataStore_init prices =
     \<lparr>orders = Map.empty, trades = Map.empty, positions = Map.empty,
      mock_price_data = prices, order_counter = 200910000000000, trade_counter = 100000\<rparr>"

text \<open>The symbol tokens of _init_scrip_master, which get_symbol_info searches.\<close>

definition scrip_master_tokens :: "string list" where
  "scrip_master_tokens =
     [''3045'', ''2885'', ''11536'', ''1594'', ''1333'', ''1333'', ''4963'', ''1922'',
      ''11483'', ''3787'']"

text \<open>The position that process_order creates when the key is new.\<close>

definition new_position :: "order \<Rightarrow> rat \<Rightarrow> position" where
  "new_position order current_price =
     \<lparr>symboltoken = ord_symboltoken order, tradingsymbol = ord_tradingsymbol order,
      pos_exchange = ord_exchange order, netqty = 0, avgprice = 0, ltp = current_price,
      pnl = 0, buyqty = 0, sellqty = 0, buyvalue = 0, sellvalue = 0\<rparr>"

text \<open>The expression \<^verbatim>\<open>((current_net * current_avg) + (quantity * execution_price)) / new_net\<close>
  of process_order, in Python's arithmetic: the ints are converted, every operation
  rounds.\<close>

definition weighted_average :: "int \<Rightarrow> rat \<Rightarrow> int \<Rightarrow> rat \<Rightarrow> rat" where
  "weighted_average current_net current_avg qty execution_price =
     fdiv (fadd (fmul (float_of_int current_net) current_avg)
                (fmul (float_of_int qty) execution_price))
          (float_of_int (current_net + qty))"

text \<open>The update of the position in process_order: the branch on the transaction type,
  the profit and loss, the last price.\<close>

definition update_position :: "position \<Rightarrow> string \<Rightarrow> int \<Rightarrow> rat \<Rightarrow> rat \<Rightarrow> position" where
  "update_position position side qty execution_price current_price =
     (let position1 =
        (if side = ''BUY'' then
           (let current_net = netqty position;
                current_avg = avgprice position;
                new_net = current_net + qty;
                new_avg =
                  (if new_net > 0
                   then weighted_average current_net current_avg qty execution_price
                   else 0)
            in position\<lparr>netqty := new_net, avgprice := py_round2 new_avg,
                 buyqty := buyqty position + qty,
                 buyvalue := fadd (buyvalue position)
                               (fmul (float_of_int qty) execution_price)\<rparr>)
         else
           (let current_net = netqty position;
                new_net = current_net - qty
            in position\<lparr>netqty := new_net,
                 avgprice := (if new_net = 0 then 0 else avgprice position),
                 sellqty := sellqty position + qty,
                 sellvalue := fadd (sellvalue position)
                                (fmul (float_of_int qty) execution_price)\<rparr>));
          position2 =
            (if netqty position1 \<noteq> 0
             then position1\<lparr>pnl :=
                    py_round2 (fmul (fsub current_price (avgprice position1))
                                 (float_of_int (netqty position1)))\<rparr>
             else position1\<lparr>pnl := 0\<rparr>)
      in position2\<lparr>ltp := current_price\<rparr>)"

text \<open>The pieces of process_order that the properties name.\<close>

definition success_rate :: "order \<Rightarrow> rat" where
  "success_rate order = (if ordertype order = ''MARKET'' then 95 / 100 else 90 / 100)"

definition execution_price :: "MockDataStore \<Rightarrow> order \<Rightarrow> rat" where
  "execution_price m order =
     (if ordertype order = ''MARKET'' then get_ltp (mock_price_data m) (ord_symboltoken order)
      else price order)"

definition position_key :: "order \<Rightarrow> string" where
  "position_key order = ord_symboltoken order @ ''_'' @ ord_exchange order"

text \<open>process_order, the body of the thread that simulate_order_execution starts for an
  order, after its sleep; \<open>r\<close> is the value of \<^verbatim>\<open>random.random()\<close>.\<close>

definition process_order :: "rat \<Rightarrow> int \<Rightarrow> MockDataStore \<Rightarrow> MockDataStore" where
  "process_order r order_id m =
     (case orders m order_id of
        None \<Rightarrow> m
      | Some order \<Rightarrow>
          if r < success_rate order then
            (let current_price = get_ltp (mock_price_data m) (ord_symboltoken order);
                 fill_price = execution_price m order;
                 trade_id = trade_counter m + 1;
                 trade_data =
                   \<lparr>tradeid = trade_id, tr_orderid = order_id,
                    tr_tradingsymbol = ord_tradingsymbol order, tr_exchange = ord_exchange order,
                    tr_transactiontype = transactiontype order,
                    tr_quantity = ord_quantity order, tr_price = fill_price,
                    tr_symboltoken = ord_symboltoken order\<rparr>;
                 position =
                   (case positions m (position_key order) of
                      None \<Rightarrow> new_position order current_price
                    | Some pos \<Rightarrow> pos)
             in m\<lparr>orders := (orders m)(order_id \<mapsto>
                      order\<lparr>ord_status := ''complete'', orderstatus := ''executed'',
                        price := fill_price\<rparr>),
                   trades := (trades m)(trade_id \<mapsto> trade_data),
                   positions := (positions m)(position_key order \<mapsto>
                      update_position position (transactiontype order) (ord_quantity order)
                        fill_price current_price),
                   trade_counter := trade_id\<rparr>)
          else
            m\<lparr>orders := (orders m)(order_id \<mapsto>
                 order\<lparr>ord_status := ''rejected'', orderstatus := ''rejected''\<rparr>)\<rparr>)"

text \<open>place_order: the response status and the new store; \<open>authorized\<close> says whether
  validate_auth_token accepts the request. The thread it starts is an event of the runs
  below.\<close>

definition place_order ::
  "bool \<Rightarrow> PlaceOrderRequest \<Rightarrow> MockDataStore \<Rightarrow> (HTTPException + bool) \<times> MockDataStore" where
  "place_order authorized request m =
     (if \<not> authorized then (Inl (HTTPException 401), m)
      else
        (let order_id = order_counter m + 1;
             m1 = m\<lparr>order_counter := order_id\<rparr>
         in if po_symboltoken request \<notin> set scrip_master_tokens then (Inr False, m1)
            else
              (Inr True,
               m1\<lparr>orders := (orders m1)(order_id \<mapsto>
                    \<lparr>orderid = order_id, ord_tradingsymbol = po_tradingsymbol request,
                     ord_symboltoken = po_symboltoken request,
                     transactiontype = po_transactiontype request,
                     ord_exchange = po_exchange request, ordertype = po_ordertype request,
                     price = po_price request, ord_quantity = po_quantity request,
                     ord_status = ''pending'', orderstatus = ''open''\<rparr>)\<rparr>)))"

text \<open>modify_order and cancel_order.\<close>

definition modify_order ::
  "bool \<Rightarrow> int \<Rightarrow> rat \<Rightarrow> int \<Rightarrow> MockDataStore \<Rightarrow> (HTTPException + bool) \<times> MockDataStore" where
  "modify_order authorized order_id new_price new_quantity m =
     (if \<not> authorized then (Inl (HTTPException 401), m)
      else case orders m order_id of
             None \<Rightarrow> (Inr False, m)
           | Some order \<Rightarrow>
               if ord_status order \<noteq> ''pending'' then (Inr False, m)
               else (Inr True,
                     m\<lparr>orders := (orders m)(order_id \<mapsto>
                          order\<lparr>price := new_price, ord_quantity := new_quantity\<rparr>)\<rparr>))"

definition cancel_order ::
  "bool \<Rightarrow> int \<Rightarrow> MockDataStore \<Rightarrow> (HTTPException + bool) \<times> MockDataStore" where
  "cancel_order authorized order_id m =
     (if \<not> authorized then (Inl (HTTPException 401), m)
      else case orders m order_id of
             None \<Rightarrow> (Inr False, m)
           | Some order \<Rightarrow>
               if ord_status order \<noteq> ''pending'' then (Inr False, m)
               else (Inr True,
                     m\<lparr>orders := (orders m)(order_id \<mapsto>
                          order\<lparr>ord_status := ''cancelled'', orderstatus := ''cancelled''\<rparr>)\<rparr>))"

subsection \<open>Runs of the exchange\<close>

text \<open>The exchange together with the threads that are still asleep, one per accepted
  order: a thread runs process_order once and ends. The store is updated one event at a
  time (interleavings inside one process_order are not modelled).\<close>

datatype mock_event =
  Place bool PlaceOrderRequest
| Resolve rat int
| Modify bool int rat int
| Cancel bool int

fun mock_step :: "mock_event \<Rightarrow> MockDataStore \<times> int list \<Rightarrow> MockDataStore \<times> int list" where
  "mock_step (Place authorized request) (m, threads) =
     (case place_order authorized request m of
        (Inr True, m') \<Rightarrow> (m', order_counter m' # threads)
      | (_, m') \<Rightarrow> (m', threads))"
| "mock_step (Resolve r order_id) (m, threads) =
     (if order_id \<in> set threads then (process_order r order_id m, remove1 order_id threads)
      else (m, threads))"
| "mock_step (Modify authorized order_id new_price new_quantity) (m, threads) =
     (snd (modify_order authorized order_id new_price new_quantity m), threads)"
| "mock_step (Cancel authorized order_id) (m, threads) =
     (snd (cancel_order authorized order_id m), threads)"

fun mock_run :: "mock_event list \<Rightarrow> MockDataStore \<times> int list \<Rightarrow> MockDataStore \<times> int list" where
  "mock_run [] st = st"
| "mock_run (e # es) st = mock_run es (mock_step e st)"

text \<open>A sequence of fills of one position: each fill is a transaction type, a quantity,
  the fill price and the last price.\<close>

fun apply_fills :: "position \<Rightarrow> (string \<times> int \<times> rat \<times> rat) list \<Rightarrow> position" where
  "apply_fills position [] = position"
| "apply_fills position ((side, qty, fill_price, current_price) # fills) =
     apply_fills (update_position position side qty fill_price current_price) fills"

subsection \<open>Invariants of the exchange\<close>

text \<open>The quantities bought and sold by a sequence of fills.\<close>

definition bought :: "(string \<times> int \<times> rat \<times> rat) list \<Rightarrow> int" where
  "bought fills = sum_list (map (\<lambda>(side, qty, fp, cp). if side = ''BUY'' then qty else 0) fills)"

definition sold :: "(string \<times> int \<times> rat \<times> rat) list \<Rightarrow> int" where
  "sold fills = sum_list (map (\<lambda>(side, qty, fp, cp). if side = ''BUY'' then 0 else qty) fills)"

text \<open>The bookkeeping of one position, and of all positions of a store.\<close>

definition ledger_ok :: "position \<Rightarrow> bool" where
  "ledger_ok pos \<longleftrightarrow>
     netqty pos = buyqty pos - sellqty pos \<and> (netqty pos = 0 \<longrightarrow> avgprice pos = 0)"

definition ledger_inv :: "MockDataStore \<Rightarrow> bool" where
  "ledger_inv m \<longleftrightarrow> (\<forall>pos \<in> ran (positions m). ledger_ok pos)"

text \<open>An order that process_order has resolved; and what holds of the orders and the
  sleeping threads in every run from the initial store: order ids do not exceed the
  counter, every thread belongs to a stored order, no two threads to the same one, and no
  thread to a resolved one.\<close>

definition resolved :: "order \<Rightarrow> bool" where
  "resolved order \<longleftrightarrow> ord_status order = ''complete'' \<or> ord_status order = ''rejected''"

definition exchange_inv :: "MockDataStore \<times> int list \<Rightarrow> bool" where
  "exchange_inv st \<longleftrightarrow>
     (\<forall>k \<in> dom (orders (fst st)). k \<le> order_counter (fst st))
     \<and> distinct (snd st)
     \<and> set (snd st) \<subseteq> dom (orders (fst st))
     \<and> (\<forall>k order. orders (fst st) k = Some order \<and> resolved order \<longrightarrow> k \<notin> set (snd st))"

text \<open>The payload that execute_market_order posts when it sells the whole of a position:
  a SELL market order for the position's net quantity.\<close>

definition closing_order :: "position \<Rightarrow> order_payload" where
  "closing_order pos =
     Payload (tradingsymbol pos) (symboltoken pos) ''SELL'' (pos_exchange pos) ''MARKET''
       (netqty pos)"

text \<open>The entries of a log of executed triggers that belong to one trigger id.\<close>

definition executed_of ::
  "string \<Rightarrow> (string \<times> trigger \<times> order_payload list) list
     \<Rightarrow> (string \<times> trigger \<times> order_payload list) list" where
  "executed_of tid lg = filter (\<lambda>e. fst e = tid) lg"

subsection \<open>A scenario\<close>

text \<open>An entry trigger in points mode with baseline 100, threshold 5 and quantity 10, an
  authenticated bot that knows one price, and a broker that accepts every order.\<close>

definition scenario_trigger :: trigger where
  "scenario_trigger =
     \<lparr>trigger_type = buy_trigger, symbol = ''SBIN-EQ'', exchange = ''NSE'',
      symbol_token = ''3045'', quantity = 10, order_type = POINTS_TRIGGER,
      trade_mode = SINGLE, sell_type = MANUAL_EXIT, points = Some 5, percentage = None,
      initial_price = 100, created_at = 0, status = ''active''\<rparr>"

definition scenario_state :: "(string \<times> trigger) list \<Rightarrow> rat \<Rightarrow> TradingBotState" where
  "scenario_state triggers p =
     \<lparr>authenticated = True, scrip_master = Map.empty, active_orders = triggers,
      price_data = [''3045'' \<mapsto> p], bot_active = True\<rparr>"

definition scenario_broker :: "position list \<Rightarrow> broker" where
  "scenario_broker ps = \<lparr>getPosition = Some ps, placeOrder = (\<lambda>payload. Some ''200910000000001'')\<rparr>"

text \<open>An exit trigger in percentage mode with threshold 2, and a position of the same
  instrument.\<close>

definition scenario_exit_trigger :: trigger where
  "scenario_exit_trigger =
     \<lparr>trigger_type = sell_trigger, symbol = ''SBIN-EQ'', exchange = ''NSE'',
      symbol_token = ''3045'', quantity = 0, order_type = LIVE_PRICE,
      trade_mode = SINGLE, sell_type = PERCENTAGE_STOP, points = None, percentage = Some 2,
      initial_price = 0, created_at = 0, status = ''active''\<rparr>"

definition scenario_position :: "int \<Rightarrow> rat \<Rightarrow> position" where
  "scenario_position n avg =
     \<lparr>symboltoken = ''3045'', tradingsymbol = ''SBIN-EQ'', pos_exchange = ''NSE'',
      netqty = n, avgprice = avg, ltp = 100, pnl = 0, buyqty = n, sellqty = 0,
      buyvalue = 0, sellvalue = 0\<rparr>"

text \<open>A bot that has no price yet, and a buy request for a trigger.\<close>

definition scenario_fresh_state :: TradingBotState where
  "scenario_fresh_state =
     \<lparr>authenticated = True, scrip_master = [''SBIN-EQ-NSE'' \<mapsto> ''3045''],
      active_orders = [], price_data = Map.empty, bot_active = True\<rparr>"

definition scenario_request :: "OrderType \<Rightarrow> BuyOrderRequest" where
  "scenario_request ot =
     \<lparr>req_symbol = ''SBIN-EQ'', req_exchange = ''NSE'', req_quantity = 10,
      req_order_type = ot, req_trade_mode = SINGLE, req_points = Some 5,
      req_percentage = Some 1\<rparr>"


definition scenario_store :: "string \<Rightarrow> MockDataStore" where
  "scenario_store side =
     (MockDataStore_init [''3045'' \<mapsto> 1041 / 2])
       \<lparr>orders := [1 \<mapsto>
          \<lparr>orderid = 1, ord_tradingsymbol = ''SBIN-EQ'', ord_symboltoken = ''3045'',
           transactiontype = side, ord_exchange = ''NSE'', ordertype = ''MARKET'',
           price = 0, ord_quantity = 10, ord_status = ''pending'', orderstatus = ''open''\<rparr>]\<rparr>"

text \<open>A BUY and a SELL of 10 units, each placed and then filled.\<close>

definition scenario_order_request :: "string \<Rightarrow> PlaceOrderRequest" where
  "scenario_order_request side =
     \<lparr>po_tradingsymbol = ''SBIN-EQ'', po_symboltoken = ''3045'', po_transactiontype = side,
      po_exchange = ''NSE'', po_ordertype = ''MARKET'', po_price = 0, po_quantity = 10\<rparr>"

definition scenario_fills :: "mock_event list" where
  "scenario_fills =
     [Place True (scenario_order_request ''BUY''), Resolve (1 / 2) 200910000000001,
      Place True (scenario_order_request ''SELL''), Resolve (1 / 2) 200910000000002]"

text \<open>The exchange as it starts, with one price.\<close>

definition scenario_exchange :: "MockDataStore \<times> int list" where
  "scenario_exchange = (MockDataStore_init [''3045'' \<mapsto> 1041 / 2], [])"

section \<open>Properties of the trigger scheduler\<close>

subsection \<open>Values and accuracy of the arithmetic\<close>

text \<open>Some values of the double-precision operations, computed from the definitions.\<close>

lemma round_double_0: "round_double 0 = 0"
  by (simp add: round_double_def)

lemma round_double_5: "round_double 5 = 5"
  by code_simp

lemma round_double_tenth: "round_double (1 / 10) = 3602879701896397 / 36028797018963968"
  by code_simp

lemma fadd_100_5: "fadd 100 5 = 105"
  by code_simp

lemma threshold_100_10: "fmul 100 (fadd 1 (fdiv 10 100)) = 7740561859543041 / 70368744177664"
  by code_simp

lemma stop_100_2: "fmul 100 (fsub 1 (fdiv 2 100)) = 98"
  by code_simp

lemma stop_1000_7: "fmul 1000 (fsub 1 (fdiv 7 100)) = 8180366510653439 / 8796093022208"
  by code_simp

lemma fadd_0: "fadd 0 x = round_double x"
  by (simp add: fadd_def)

lemma fmul_0: "fmul 0 x = 0"
  by (simp add: fmul_def round_double_0)



text \<open>Rounding to the nearest double moves a number of magnitude at least \<open>2 ^ - 1022\<close>
  (the smallest normal double) by at most the fraction \<open>2 ^ - 53\<close> of it.\<close>

lemma round_half_even_near: "\<bar>of_int (round_half_even y) - y\<bar> \<le> 1 / 2"
proof -
  have "of_int (floor y) \<le> y" "y < of_int (floor y) + 1"
    by linarith+
  then show ?thesis
    by (auto simp: round_half_even_def Let_def)
qed

lemma float_exponent_le:
  assumes "x \<noteq> 0"
  shows "2 powi (float_exponent x) \<le> \<bar>x\<bar>"
proof -
  obtain p q where pq: "quotient_of \<bar>x\<bar> = (p, q)" by (cases "quotient_of \<bar>x\<bar>")
  have q: "q > 0" using pq by (rule quotient_of_denom_pos)
  have x: "\<bar>x\<bar> = of_int p / of_int q" using pq by (rule quotient_of_div)
  have "\<bar>x\<bar> > 0" using assms by simp
  then have p: "p > 0" using q x by (simp add: zero_less_divide_iff)
  let ?k = "bitlen p - bitlen q"
  show ?thesis
  proof (cases "2 powi ?k \<le> \<bar>x\<bar>")
    case True
    then show ?thesis by (simp add: float_exponent_def pq)
  next
    case False
    have bp: "2 ^ nat (bitlen p - 1) \<le> p" using bitlen_bounds [OF p] by simp
    have bq: "q < 2 ^ nat (bitlen q)" using bitlen_bounds [OF q] by simp
    have p1: "bitlen p \<ge> 1" using p by (auto simp: bitlen_alt_def)
    have q0: "bitlen q \<ge> 0" by (rule bitlen_nonneg)
    have a: "(2::rat) powi (bitlen p - 1) \<le> of_int p"
    proof -
      have "(2::rat) powi (bitlen p - 1) = 2 ^ nat (bitlen p - 1)"
        using p1 by (simp add: power_int_def)
      also have "\<dots> = of_int (2 ^ nat (bitlen p - 1))" by simp
      also have "\<dots> \<le> of_int p" using bp by (simp only: of_int_le_iff)
      finally show ?thesis .
    qed
    have b: "of_int q \<le> (2::rat) powi (bitlen q)"
    proof -
      have "(of_int q :: rat) \<le> of_int (2 ^ nat (bitlen q))"
        using bq by (simp only: of_int_le_iff)
      also have "\<dots> = 2 powi (bitlen q)"
        using q0 by (simp add: power_int_def)
      finally show ?thesis .
    qed
    have "(2::rat) powi (?k - 1) = 2 powi (bitlen p - 1) / 2 powi (bitlen q)"
      using power_int_diff [of "2::rat" "bitlen p - 1" "bitlen q"] by (simp add: algebra_simps)
    also have "\<dots> \<le> of_int p / 2 powi (bitlen q)"
      using a by (simp add: divide_right_mono)
    also have "\<dots> \<le> of_int p / of_int q"
      using b p q by (simp add: frac_le)
    finally have "(2::rat) powi (?k - 1) \<le> \<bar>x\<bar>"
      by (simp only: x)
    moreover have "float_exponent x = ?k - 1"
      using False by (simp add: float_exponent_def pq)
    ultimately show ?thesis by simp
  qed
qed

lemma round_double_near:
  assumes "2 powi (- 1022) \<le> \<bar>x\<bar>"
  shows "\<bar>round_double x - x\<bar> \<le> \<bar>x\<bar> / 2 ^ 53"
proof -
  have x0: "x \<noteq> 0"
  proof
    assume "x = 0"
    with assms have "(2::rat) powi (- 1022) \<le> 0" by simp
    then show False by (simp add: power_int_def)
  qed
  define e where "e = max (float_exponent x - 52) (- 1074)"
  define s :: rat where "s = 2 powi e"
  have s0: "s > 0" by (simp add: s_def)
  have r: "round_double x = of_int (round_half_even (x / s)) * s"
    using x0 by (simp add: round_double_def e_def s_def Let_def)
  have "\<bar>of_int (round_half_even (x / s)) - x / s\<bar> \<le> 1 / 2"
    by (rule round_half_even_near)
  then have "\<bar>of_int (round_half_even (x / s)) - x / s\<bar> * s \<le> 1 / 2 * s"
    using s0 by (intro mult_right_mono) simp_all
  moreover have "\<bar>of_int (round_half_even (x / s)) - x / s\<bar> * s = \<bar>round_double x - x\<bar>"
  proof -
    have "\<bar>of_int (round_half_even (x / s)) - x / s\<bar> * s
        = \<bar>(of_int (round_half_even (x / s)) - x / s) * s\<bar>"
      using s0 by (simp add: abs_mult)
    also have "(of_int (round_half_even (x / s)) - x / s) * s = round_double x - x"
      using s0 by (simp add: r algebra_simps)
    finally show ?thesis .
  qed
  ultimately have err: "\<bar>round_double x - x\<bar> \<le> s / 2" by simp
  have "s / 2 \<le> \<bar>x\<bar> / 2 ^ 53"
  proof (cases "float_exponent x - 52 \<ge> - 1074")
    case True
    then have "e = float_exponent x - 52" by (simp add: e_def)
    then have "s = 2 powi (float_exponent x) / 2 ^ 52"
      using power_int_diff [of "2::rat" "float_exponent x" 52] by (simp add: s_def)
    then show ?thesis
      using float_exponent_le [OF x0] by (simp add: field_simps)
  next
    case False
    then have "e = - 1074" by (simp add: e_def)
    then have "s = 2 powi (- 1022) / 2 ^ 52"
      using power_int_diff [of "2::rat" "- 1022" 52] by (simp add: s_def)
    then show ?thesis
      using assms by (simp add: field_simps)
  qed
  with err show ?thesis by linarith
qed

lemma monitor_loop_executed:
  "(tid, t, ps) \<in> set (snd (monitor_loop now s b items)) \<longleftrightarrow>
     (tid, t) \<in> set items \<and> snd (monitor_one now s b t) = Some ps"
  by (induction items) (auto split: prod.splits option.splits)

lemma monitor_loop_removed:
  "tid \<in> set (fst (monitor_loop now s b items)) \<longleftrightarrow>
     (\<exists>t. (tid, t) \<in> set items \<and> fst (monitor_one now s b t))"
  by (induction items) (auto split: prod.splits option.splits)

lemma map_of_remove_triggers:
  "map_of (remove_triggers rm al) k = (if k \<in> set rm then None else map_of al k)"
  by (induction rm arbitrary: al) (auto simp: delete_conv')

lemma distinct_remove_triggers:
  "distinct (map fst al) \<Longrightarrow> distinct (map fst (remove_triggers rm al))"
  by (induction rm arbitrary: al) (auto simp: distinct_delete)

lemma set_remove_triggers:
  "set (remove_triggers rm al) = {e \<in> set al. fst e \<notin> set rm}"
  by (induction rm arbitrary: al) (auto simp: AList.delete_eq)

lemma keys_remove_triggers:
  "fst ` set (remove_triggers rm al) = fst ` set al - set rm"
  unfolding set_remove_triggers by force

lemma executed_absent:
  "tid \<notin> fst ` set items \<Longrightarrow>
   filter (\<lambda>e. fst e = tid) (snd (monitor_loop now s b items)) = []"
  by (induction items) (auto split: prod.splits option.splits)

lemma executed_filter:
  "distinct (map fst items) \<Longrightarrow> (tid, t) \<in> set items \<Longrightarrow>
   filter (\<lambda>e. fst e = tid) (snd (monitor_loop now s b items)) =
     (case snd (monitor_one now s b t) of None \<Rightarrow> [] | Some ps \<Rightarrow> [(tid, t, ps)])"
proof (induction items)
  case Nil
  then show ?case by simp
next
  case (Cons a items)
  obtain k v where a: "a = (k, v)" by (cases a)
  note none = executed_absent [of k items now s b]
  show ?case
  proof (cases "k = tid")
    case True
    with Cons.prems a have "v = t" by (auto simp: image_iff)
    with True a Cons.prems none show ?thesis
      by (auto split: prod.splits option.splits)
  next
    case False
    with Cons a show ?thesis
      by (auto split: prod.splits option.splits)
  qed
qed

lemma trigger_monitor_log:
  "bot_active s \<Longrightarrow> snd (trigger_monitor now b s) = snd (monitor_loop now s b (active_orders s))"
  by (simp add: trigger_monitor_def split: prod.splits)

lemma trigger_monitor_orders:
  "bot_active s \<Longrightarrow>
   active_orders (fst (trigger_monitor now b s)) =
     remove_triggers (fst (monitor_loop now s b (active_orders s))) (active_orders s)"
  by (simp add: trigger_monitor_def split: prod.splits)

lemma trigger_monitor_inactive:
  "\<not> bot_active s \<Longrightarrow> trigger_monitor now b s = (s, [])"
  by (simp add: trigger_monitor_def)

lemma executed_of_tick:
  assumes "bot_active s" "distinct (map fst (active_orders s))" "(tid, t) \<in> set (active_orders s)"
  shows "executed_of tid (snd (trigger_monitor now b s)) =
     (case snd (monitor_one now s b t) of None \<Rightarrow> [] | Some ps \<Rightarrow> [(tid, t, ps)])"
  using assms by (simp add: executed_of_def trigger_monitor_log executed_filter)

lemma monitor_one_buy:
  assumes "trigger_type t = buy_trigger" "status t = ''active''"
    "now - created_at t \<le> ORDER_TIMEOUT_MINUTES * 60"
    "price_data s (symbol_token t) = Some p" "p \<noteq> 0"
  shows "monitor_one now s b t =
     (if check_buy_trigger t p then (trade_mode t = SINGLE, Some (execute_trigger s b t))
      else (False, None))"
  using assms by (simp add: monitor_one_def get_ltp_def)

lemma execute_trigger_buy:
  "trigger_type t = buy_trigger \<Longrightarrow> authenticated s \<Longrightarrow>
   execute_trigger s b t =
     [Payload (symbol t) (symbol_token t) ''BUY'' (exchange t) ''MARKET'' (quantity t)]"
  by (simp add: execute_trigger_def execute_market_order_def post_order_def split: option.splits)

lemma find_entry_price_find:
  "find_entry_price tok poss =
     (case find (\<lambda>pos. symboltoken pos = tok) poss of None \<Rightarrow> 0 | Some pos \<Rightarrow> avgprice pos)"
  by (induction poss) auto

lemma monitor_one_timed_out:
  "status t = ''active'' \<Longrightarrow> now - created_at t > ORDER_TIMEOUT_MINUTES * 60 \<Longrightarrow>
   monitor_one now s b t = (True, None)"
  by (simp add: monitor_one_def)

lemma executed_of_inactive_bot:
  "\<not> bot_active s \<Longrightarrow> executed_of tid (snd (trigger_monitor now b s)) = []"
  by (simp add: trigger_monitor_inactive executed_of_def)

lemma tick_removes:
  assumes "bot_active s" "(tid, t) \<in> set (active_orders s)" "fst (monitor_one now s b t)"
  shows "tid \<notin> fst ` set (active_orders (fst (trigger_monitor now b s)))"
proof -
  have "tid \<in> set (fst (monitor_loop now s b (active_orders s)))"
    using assms(2,3) monitor_loop_removed by blast
  then show ?thesis
    using assms(1) by (simp add: trigger_monitor_orders keys_remove_triggers)
qed

lemma monitor_one_sell:
  assumes "trigger_type t = sell_trigger" "status t = ''active''"
    "now - created_at t \<le> ORDER_TIMEOUT_MINUTES * 60"
    "price_data s (symbol_token t) = Some p" "p \<noteq> 0"
  shows "monitor_one now s b t =
     (if check_sell_trigger s b t p then (True, Some (execute_trigger s b t))
      else (False, None))"
  using assms by (simp add: monitor_one_def get_ltp_def)

lemma check_sell_trigger_live:
  assumes "authenticated s" "getPosition b = Some poss"
  shows "check_sell_trigger s b t p =
     (let entry_price = find_entry_price (symbol_token t) poss in
      entry_price \<noteq> 0 \<and>
      (case sell_type t of
         POINTS_STOP \<Rightarrow> (case points t of None \<Rightarrow> False | Some pts \<Rightarrow> p \<le> fsub entry_price pts)
       | PERCENTAGE_STOP \<Rightarrow>
           (case percentage t of
              None \<Rightarrow> False
            | Some pct \<Rightarrow> p \<le> fmul entry_price (fsub 1 (fdiv pct 100)))
       | _ \<Rightarrow> False))"
  using assms
  by (simp add: check_sell_trigger_def get_positions_def Let_def split: SellOrderType.splits option.splits)

lemma execute_trigger_sell:
  assumes "authenticated s" "getPosition b = Some poss" "trigger_type t = sell_trigger"
  shows "execute_trigger s b t =
     (if find_sell_quantity (symbol_token t) poss = 0 then []
      else [Payload (symbol t) (symbol_token t) ''SELL'' (exchange t) ''MARKET''
              (find_sell_quantity (symbol_token t) poss)])"
  using assms
  by (simp add: execute_trigger_def execute_market_order_def get_positions_def post_order_def
      Let_def split: option.splits)

lemma place_buy_order_trigger:
  assumes "get_symbol_token s (req_symbol req) (req_exchange req) = Inr tok"
    "req_order_type req \<noteq> LIVE_PRICE"
  shows "active_orders (fst (snd (place_buy_order tid now b req s))) =
     AList.update tid
       \<lparr>trigger_type = buy_trigger, symbol = req_symbol req, exchange = req_exchange req,
        symbol_token = tok, quantity = req_quantity req, order_type = req_order_type req,
        trade_mode = req_trade_mode req, sell_type = MANUAL_EXIT, points = req_points req,
        percentage = req_percentage req, initial_price = get_ltp (price_data s) tok,
        created_at = now, status = ''active''\<rparr> (active_orders s)"
    and "bot_active (fst (snd (place_buy_order tid now b req s))) = bot_active s"
    and "price_data (fst (snd (place_buy_order tid now b req s))) = price_data s"
    and "authenticated (fst (snd (place_buy_order tid now b req s))) = authenticated s"
  using assms by (simp_all add: place_buy_order_def)

lemma update_member: "(k, v) \<in> set (AList.update k v al)"
  by (induction al) auto

lemma buy_trigger_tick:
  assumes "bot_active s" "distinct (map fst (active_orders s))"
    "(tid, t) \<in> set (active_orders s)"
    "trigger_type t = buy_trigger" "status t = ''active''"
    "now - created_at t \<le> ORDER_TIMEOUT_MINUTES * 60"
    "price_data s (symbol_token t) = Some p" "p \<noteq> 0"
  shows "executed_of tid (snd (trigger_monitor now b s)) =
     (if check_buy_trigger t p then [(tid, t, execute_trigger s b t)] else [])"
  using executed_of_tick [OF assms(1) assms(2) assms(3), of now b]
    monitor_one_buy [OF assms(4) assms(5) assms(6) assms(7) assms(8), of b]
  by simp

lemma check_buy_trigger_points:
  "order_type t = POINTS_TRIGGER \<Longrightarrow> points t = Some pts \<Longrightarrow>
   check_buy_trigger t p = (p \<ge> fadd (initial_price t) pts)"
  by (simp add: check_buy_trigger_def)

lemma check_buy_trigger_percentage:
  "order_type t = PERCENTAGE_TRIGGER \<Longrightarrow> percentage t = Some pct \<Longrightarrow>
   check_buy_trigger t p = (p \<ge> fmul (initial_price t) (fadd 1 (fdiv pct 100)))"
  by (simp add: check_buy_trigger_def)

lemma sell_trigger_tick:
  assumes "bot_active s" "distinct (map fst (active_orders s))"
    "(tid, t) \<in> set (active_orders s)"
    "trigger_type t = sell_trigger" "status t = ''active''"
    "now - created_at t \<le> ORDER_TIMEOUT_MINUTES * 60"
    "price_data s (symbol_token t) = Some p" "p \<noteq> 0"
  shows "executed_of tid (snd (trigger_monitor now b s)) =
     (if check_sell_trigger s b t p then [(tid, t, execute_trigger s b t)] else [])"
  using executed_of_tick [OF assms(1) assms(2) assms(3), of now b]
    monitor_one_sell [OF assms(4) assms(5) assms(6) assms(7) assms(8), of b]
  by simp

text \<open>
  Claim C4, as amended. An active entry trigger that has not timed out, in an enabled bot
  that knows a price \<open>p > 0\<close> for its instrument, is executed in a pass of trigger_monitor
  if and only if \<open>p \<ge> baseline + points\<close> (points mode) or
  \<open>p \<ge> baseline * (1 + percent / 100)\<close> (percentage mode), where the right-hand sides are
  computed in double-precision arithmetic, every operation rounded to the nearest
  double (which moves a result by at most the fraction \<open>2 ^ - 53\<close> of it), and the baseline
  is the price stored at creation; when it is executed by an
  authenticated bot it posts exactly one BUY market order for its configured quantity.
  The witness is the scenario with baseline 100 and threshold 5: price 104 does not fire,
  price 105 fires one BUY order for 10 units.
\<close>

theorem buy_trigger_fires_iff:
  assumes "bot_active s" "distinct (map fst (active_orders s))"
    "(tid, t) \<in> set (active_orders s)"
    "trigger_type t = buy_trigger" "status t = ''active''"
    "now - created_at t \<le> ORDER_TIMEOUT_MINUTES * 60"
    "price_data s (symbol_token t) = Some p" "p > 0"
  shows "(order_type t = POINTS_TRIGGER \<and> points t = Some pts \<longrightarrow>
            (executed_of tid (snd (trigger_monitor now b s)) \<noteq> []
               \<longleftrightarrow> p \<ge> fadd (initial_price t) pts))
       \<and> (order_type t = PERCENTAGE_TRIGGER \<and> percentage t = Some pct \<longrightarrow>
            (executed_of tid (snd (trigger_monitor now b s)) \<noteq> []
               \<longleftrightarrow> p \<ge> fmul (initial_price t) (fadd 1 (fdiv pct 100))))
       \<and> (authenticated s \<and> executed_of tid (snd (trigger_monitor now b s)) \<noteq> [] \<longrightarrow>
            executed_of tid (snd (trigger_monitor now b s)) =
              [(tid, t, [Payload (symbol t) (symbol_token t) ''BUY'' (exchange t) ''MARKET''
                           (quantity t)])])
       \<and> (\<forall>x. 2 powi (- 1022) \<le> \<bar>x\<bar> \<longrightarrow> \<bar>round_double x - x\<bar> \<le> \<bar>x\<bar> / 2 ^ 53)"
proof -
  have p0: "p \<noteq> 0" using assms(8) by simp
  note e = buy_trigger_tick [OF assms(1) assms(2) assms(3) assms(4) assms(5) assms(6) assms(7) p0,
      where b = b]
  have main: "(order_type t = POINTS_TRIGGER \<and> points t = Some pts \<longrightarrow>
            (executed_of tid (snd (trigger_monitor now b s)) \<noteq> []
               \<longleftrightarrow> p \<ge> fadd (initial_price t) pts))
       \<and> (order_type t = PERCENTAGE_TRIGGER \<and> percentage t = Some pct \<longrightarrow>
            (executed_of tid (snd (trigger_monitor now b s)) \<noteq> []
               \<longleftrightarrow> p \<ge> fmul (initial_price t) (fadd 1 (fdiv pct 100))))
       \<and> (authenticated s \<and> executed_of tid (snd (trigger_monitor now b s)) \<noteq> [] \<longrightarrow>
            executed_of tid (snd (trigger_monitor now b s)) =
              [(tid, t, [Payload (symbol t) (symbol_token t) ''BUY'' (exchange t) ''MARKET''
                           (quantity t)])])"
    using check_buy_trigger_points [of t pts p] check_buy_trigger_percentage [of t pct p]
      execute_trigger_buy [OF assms(4), of s b]
    by (auto simp: e)
  show ?thesis
    using main round_double_near by blast
qed

theorem buy_trigger_fires_iff_witness:
  "executed_of ''T1''
     (snd (trigger_monitor 10 (scenario_broker []) (scenario_state [(''T1'', scenario_trigger)] 104))) = []
   \<and> executed_of ''T1''
     (snd (trigger_monitor 10 (scenario_broker []) (scenario_state [(''T1'', scenario_trigger)] 105))) =
       [(''T1'', scenario_trigger, [Payload ''SBIN-EQ'' ''3045'' ''BUY'' ''NSE'' ''MARKET'' 10])]"
proof -
  have a: "executed_of ''T1''
     (snd (trigger_monitor 10 (scenario_broker []) (scenario_state [(''T1'', scenario_trigger)] 104))) = []"
    using buy_trigger_fires_iff [where s = "scenario_state [(''T1'', scenario_trigger)] 104"
        and tid = "''T1''" and t = scenario_trigger and now = 10 and p = 104 and pts = 5
        and pct = 0 and b = "scenario_broker []"]
    by (simp add: scenario_state_def scenario_trigger_def ORDER_TIMEOUT_MINUTES_def fadd_100_5)
  have b: "executed_of ''T1''
     (snd (trigger_monitor 10 (scenario_broker []) (scenario_state [(''T1'', scenario_trigger)] 105))) =
       [(''T1'', scenario_trigger, [Payload ''SBIN-EQ'' ''3045'' ''BUY'' ''NSE'' ''MARKET'' 10])]"
    using buy_trigger_fires_iff [where s = "scenario_state [(''T1'', scenario_trigger)] 105"
        and tid = "''T1''" and t = scenario_trigger and now = 10 and p = 105 and pts = 5
        and pct = 0 and b = "scenario_broker []"]
    by (simp add: scenario_state_def scenario_trigger_def ORDER_TIMEOUT_MINUTES_def fadd_100_5)
  from a b show ?thesis by simp
qed

text \<open>
  The claim as stated, with the threshold as a number, fails at the threshold: with
  baseline 100 and 10 percent the code computes the threshold 110.00000000000001, and an
  authenticated, enabled bot does not execute the trigger at price 110, which is
  \<open>100 * (1 + 10 / 100)\<close>.
\<close>

theorem percentage_threshold_counterexample:
  "(110 :: rat) \<ge> 100 * (1 + 10 / 100)
   \<and> executed_of ''T1''
       (snd (trigger_monitor 10 (scenario_broker [])
          (scenario_state
             [(''T1'', scenario_trigger\<lparr>order_type := PERCENTAGE_TRIGGER, percentage := Some 10\<rparr>)]
             110))) = []"
  using buy_trigger_tick [where s = "scenario_state
             [(''T1'', scenario_trigger\<lparr>order_type := PERCENTAGE_TRIGGER, percentage := Some 10\<rparr>)]
             110"
      and tid = "''T1''"
      and t = "scenario_trigger\<lparr>order_type := PERCENTAGE_TRIGGER, percentage := Some 10\<rparr>"
      and now = 10 and p = 110 and b = "scenario_broker []"]
  by (simp add: scenario_state_def scenario_trigger_def ORDER_TIMEOUT_MINUTES_def
      check_buy_trigger_def threshold_100_10)

text \<open>
  Claim C5, as amended. An active exit trigger that has not timed out, in an enabled and
  authenticated bot that knows a price \<open>p > 0\<close>: the entry price is the average price of the
  first position with the trigger's symbol token in the position list that the broker
  answers during this pass (the trigger stores no entry price), 0 when there is none.
  With entry price 0 the trigger is not executed; otherwise a points stop is executed if
  and only if \<open>p \<le> entryPrice - points\<close> and a percentage stop if and only if
  \<open>p \<le> entryPrice * (1 - percent / 100)\<close>, where the right-hand sides are computed in
  double-precision arithmetic, every operation rounded to the nearest double (which moves
  a result by at most the fraction \<open>2 ^ - 53\<close> of it). An executed
  stop posts one SELL market order for the net quantity of the first position with that
  symbol token and a positive net quantity, and no order when there is none.
\<close>

theorem sell_trigger_fires_iff:
  assumes "bot_active s" "distinct (map fst (active_orders s))"
    "(tid, t) \<in> set (active_orders s)"
    "trigger_type t = sell_trigger" "status t = ''active''"
    "now - created_at t \<le> ORDER_TIMEOUT_MINUTES * 60"
    "price_data s (symbol_token t) = Some p" "p > 0"
    "authenticated s" "getPosition b = Some poss"
    "entry_price = find_entry_price (symbol_token t) poss"
    "qty = find_sell_quantity (symbol_token t) poss"
  shows "entry_price =
           (case find (\<lambda>pos. symboltoken pos = symbol_token t) poss of
              None \<Rightarrow> 0 | Some pos \<Rightarrow> avgprice pos)
       \<and> (entry_price = 0 \<longrightarrow> executed_of tid (snd (trigger_monitor now b s)) = [])
       \<and> (entry_price \<noteq> 0 \<and> sell_type t = POINTS_STOP \<and> points t = Some pts \<longrightarrow>
            (executed_of tid (snd (trigger_monitor now b s)) \<noteq> []
               \<longleftrightarrow> p \<le> fsub entry_price pts))
       \<and> (entry_price \<noteq> 0 \<and> sell_type t = PERCENTAGE_STOP \<and> percentage t = Some pct \<longrightarrow>
            (executed_of tid (snd (trigger_monitor now b s)) \<noteq> []
               \<longleftrightarrow> p \<le> fmul entry_price (fsub 1 (fdiv pct 100))))
       \<and> (executed_of tid (snd (trigger_monitor now b s)) \<noteq> [] \<longrightarrow>
            executed_of tid (snd (trigger_monitor now b s)) =
              [(tid, t,
                if qty = 0 then []
                else [Payload (symbol t) (symbol_token t) ''SELL'' (exchange t) ''MARKET'' qty])])
       \<and> (\<forall>x. 2 powi (- 1022) \<le> \<bar>x\<bar> \<longrightarrow> \<bar>round_double x - x\<bar> \<le> \<bar>x\<bar> / 2 ^ 53)"
proof -
  have p0: "p \<noteq> 0" using assms(8) by simp
  note e = sell_trigger_tick [OF assms(1) assms(2) assms(3) assms(4) assms(5) assms(6) assms(7) p0,
      where b = b]
  note c = check_sell_trigger_live [OF assms(9) assms(10), of t p]
  note x = execute_trigger_sell [OF assms(9) assms(10) assms(4)]
  have main: "entry_price =
           (case find (\<lambda>pos. symboltoken pos = symbol_token t) poss of
              None \<Rightarrow> 0 | Some pos \<Rightarrow> avgprice pos)
       \<and> (entry_price = 0 \<longrightarrow> executed_of tid (snd (trigger_monitor now b s)) = [])
       \<and> (entry_price \<noteq> 0 \<and> sell_type t = POINTS_STOP \<and> points t = Some pts \<longrightarrow>
            (executed_of tid (snd (trigger_monitor now b s)) \<noteq> []
               \<longleftrightarrow> p \<le> fsub entry_price pts))
       \<and> (entry_price \<noteq> 0 \<and> sell_type t = PERCENTAGE_STOP \<and> percentage t = Some pct \<longrightarrow>
            (executed_of tid (snd (trigger_monitor now b s)) \<noteq> []
               \<longleftrightarrow> p \<le> fmul entry_price (fsub 1 (fdiv pct 100))))
       \<and> (executed_of tid (snd (trigger_monitor now b s)) \<noteq> [] \<longrightarrow>
            executed_of tid (snd (trigger_monitor now b s)) =
              [(tid, t,
                if qty = 0 then []
                else [Payload (symbol t) (symbol_token t) ''SELL'' (exchange t) ''MARKET'' qty])])"
    by (auto simp: e c x assms(11) assms(12) find_entry_price_find Let_def)
  show ?thesis
    using main round_double_near by blast
qed

theorem sell_trigger_fires_iff_witness:
  "executed_of ''T2''
     (snd (trigger_monitor 10 (scenario_broker [scenario_position 10 100])
            (scenario_state [(''T2'', scenario_exit_trigger)] (195 / 2)))) =
     [(''T2'', scenario_exit_trigger, [Payload ''SBIN-EQ'' ''3045'' ''SELL'' ''NSE'' ''MARKET'' 10])]
   \<and> executed_of ''T2''
     (snd (trigger_monitor 10 (scenario_broker [scenario_position 10 100])
            (scenario_state [(''T2'', scenario_exit_trigger)] 99))) = []
   \<and> executed_of ''T2''
     (snd (trigger_monitor 10 (scenario_broker [])
            (scenario_state [(''T2'', scenario_exit_trigger)] 1))) = []"
proof -
  have a: "executed_of ''T2''
     (snd (trigger_monitor 10 (scenario_broker [scenario_position 10 100])
            (scenario_state [(''T2'', scenario_exit_trigger)] (195 / 2)))) =
     [(''T2'', scenario_exit_trigger, [Payload ''SBIN-EQ'' ''3045'' ''SELL'' ''NSE'' ''MARKET'' 10])]"
    using sell_trigger_fires_iff [where s = "scenario_state [(''T2'', scenario_exit_trigger)] (195 / 2)"
        and tid = "''T2''" and t = scenario_exit_trigger and now = 10 and p = "195 / 2"
        and pts = 0 and pct = 2 and b = "scenario_broker [scenario_position 10 100]"
        and poss = "[scenario_position 10 100]" and entry_price = 100 and qty = 10]
    by (simp add: scenario_state_def scenario_exit_trigger_def scenario_broker_def
        scenario_position_def ORDER_TIMEOUT_MINUTES_def stop_100_2)
  have b: "executed_of ''T2''
     (snd (trigger_monitor 10 (scenario_broker [scenario_position 10 100])
            (scenario_state [(''T2'', scenario_exit_trigger)] 99))) = []"
    using sell_trigger_fires_iff [where s = "scenario_state [(''T2'', scenario_exit_trigger)] 99"
        and tid = "''T2''" and t = scenario_exit_trigger and now = 10 and p = 99
        and pts = 0 and pct = 2 and b = "scenario_broker [scenario_position 10 100]"
        and poss = "[scenario_position 10 100]" and entry_price = 100 and qty = 10]
    by (simp add: scenario_state_def scenario_exit_trigger_def scenario_broker_def
        scenario_position_def ORDER_TIMEOUT_MINUTES_def stop_100_2)
  have c: "executed_of ''T2''
     (snd (trigger_monitor 10 (scenario_broker [])
            (scenario_state [(''T2'', scenario_exit_trigger)] 1))) = []"
    using sell_trigger_fires_iff [where s = "scenario_state [(''T2'', scenario_exit_trigger)] 1"
        and tid = "''T2''" and t = scenario_exit_trigger and now = 10 and p = 1
        and pts = 0 and pct = 2 and b = "scenario_broker []"
        and poss = "[]" and entry_price = 0 and qty = 0]
    by (simp add: scenario_state_def scenario_exit_trigger_def scenario_broker_def
        ORDER_TIMEOUT_MINUTES_def)
  from a b c show ?thesis by simp
qed

text \<open>
  The claim as stated, with the stop price as a number, fails at the stop price: with entry
  price 1000 and 7 percent the code computes the stop price 929.9999999999999, and an
  authenticated, enabled bot that holds 10 units does not execute the trigger at price
  930, which is \<open>1000 * (1 - 7 / 100)\<close>.
\<close>

theorem percentage_stop_counterexample:
  "(930 :: rat) \<le> 1000 * (1 - 7 / 100)
   \<and> executed_of ''T2''
       (snd (trigger_monitor 10 (scenario_broker [scenario_position 10 1000])
          (scenario_state [(''T2'', scenario_exit_trigger\<lparr>percentage := Some 7\<rparr>)] 930))) = []"
  using sell_trigger_tick [where s = "scenario_state
        [(''T2'', scenario_exit_trigger\<lparr>percentage := Some 7\<rparr>)] 930"
      and tid = "''T2''" and t = "scenario_exit_trigger\<lparr>percentage := Some 7\<rparr>"
      and now = 10 and p = 930 and b = "scenario_broker [scenario_position 10 1000]"]
  by (simp add: scenario_state_def scenario_exit_trigger_def scenario_broker_def
      scenario_position_def ORDER_TIMEOUT_MINUTES_def check_sell_trigger_def get_positions_def
      stop_1000_7)

text \<open>
  Claim C6. An active trigger whose age \<open>now - created_at\<close> exceeds
  ORDER_TIMEOUT_MINUTES * 60 seconds: the body of the loop answers "remove, not executed"
  whatever the prices and the broker are (neither is consulted), the pass logs no
  execution of the trigger, so it posts no order, and a pass of an enabled bot removes it
  from the registry. Hence a trigger created at T is never executed at a time after
  T + 300 seconds.
\<close>

theorem timed_out_trigger_retired:
  assumes "distinct (map fst (active_orders s))" "(tid, t) \<in> set (active_orders s)"
    "status t = ''active''" "now - created_at t > ORDER_TIMEOUT_MINUTES * 60"
  shows "(\<forall>s' b'. monitor_one now s' b' t = (True, None))
       \<and> executed_of tid (snd (trigger_monitor now b s)) = []
       \<and> (bot_active s \<longrightarrow> tid \<notin> fst ` set (active_orders (fst (trigger_monitor now b s))))"
proof -
  have m: "\<And>s' b'. monitor_one now s' b' t = (True, None)"
    using assms(3,4) by (rule monitor_one_timed_out)
  have e: "executed_of tid (snd (trigger_monitor now b s)) = []"
  proof (cases "bot_active s")
    case True
    then show ?thesis using executed_of_tick [OF True assms(1,2), of now b] by (simp add: m)
  next
    case False
    then show ?thesis by (rule executed_of_inactive_bot)
  qed
  have r: "bot_active s \<Longrightarrow> tid \<notin> fst ` set (active_orders (fst (trigger_monitor now b s)))"
    using tick_removes [OF _ assms(2), of now b] by (simp add: m)
  from m e r show ?thesis by blast
qed

theorem timed_out_trigger_retired_witness:
  "(\<forall>s' b'. monitor_one 301 s' b' scenario_trigger = (True, None))
   \<and> executed_of ''T1''
       (snd (trigger_monitor 301 (scenario_broker [])
              (scenario_state [(''T1'', scenario_trigger)] 105))) = []
   \<and> ''T1'' \<notin> fst ` set (active_orders (fst (trigger_monitor 301 (scenario_broker [])
              (scenario_state [(''T1'', scenario_trigger)] 105))))"
  using timed_out_trigger_retired [where s = "scenario_state [(''T1'', scenario_trigger)] 105"
      and tid = "''T1''" and t = scenario_trigger and now = 301 and b = "scenario_broker []"]
  by (simp add: scenario_state_def scenario_trigger_def ORDER_TIMEOUT_MINUTES_def)

text \<open>
  Claim C10. A buy request for a trigger, placed while price_data has no entry for the
  instrument, stores the trigger with initial_price 0. When the feed then delivers a price
  \<open>p > 0\<close> and the next pass of trigger_monitor of the enabled, authenticated bot runs
  before the trigger times out, a points trigger posts its BUY market order for the
  configured quantity if and only if \<open>p \<ge> points\<close> (the threshold \<open>0 + points\<close> is the double
  \<open>points\<close> itself), and a percentage trigger posts it for every such price (its threshold
  is \<open>0 * (1 + percent / 100) = 0\<close>).
\<close>

theorem baseline_zero_entry_trigger:
  assumes "get_symbol_token s (req_symbol req) (req_exchange req) = Inr tok"
    "price_data s tok = None" "req_order_type req \<noteq> LIVE_PRICE"
    "bot_active s" "authenticated s" "distinct (map fst (active_orders s))"
    "later - now \<le> ORDER_TIMEOUT_MINUTES * 60" "p > 0"
    "lg = snd (run [PlaceBuy tid now b req, PriceFeed tok p, Tick later bk] s)"
    "buy = Payload (req_symbol req) tok ''BUY'' (req_exchange req) ''MARKET'' (req_quantity req)"
  shows "(\<exists>t. map_of (active_orders (fst (snd (place_buy_order tid now b req s)))) tid = Some t
              \<and> initial_price t = 0)
       \<and> (req_order_type req = POINTS_TRIGGER \<and> req_points req = Some pts
             \<and> round_double pts = pts \<longrightarrow>
            map (snd \<circ> snd) (executed_of tid lg) = (if p \<ge> pts then [[buy]] else []))
       \<and> (req_order_type req = PERCENTAGE_TRIGGER \<and> req_percentage req = Some pct \<longrightarrow>
            map (snd \<circ> snd) (executed_of tid lg) = [[buy]])"
proof -
  define t where "t =
       \<lparr>trigger_type = buy_trigger, symbol = req_symbol req, exchange = req_exchange req,
        symbol_token = tok, quantity = req_quantity req, order_type = req_order_type req,
        trade_mode = req_trade_mode req, sell_type = MANUAL_EXIT, points = req_points req,
        percentage = req_percentage req, initial_price = 0,
        created_at = now, status = ''active''\<rparr>"
  define s1 where "s1 = fst (snd (place_buy_order tid now b req s))"
  define s2 where "s2 = s1\<lparr>price_data := (price_data s1)(tok \<mapsto> p)\<rparr>"
  have ao: "active_orders s1 = AList.update tid t (active_orders s)"
    using place_buy_order_trigger(1) [OF assms(1) assms(3)] assms(2)
    by (simp add: s1_def t_def get_ltp_def)
  have first: "map_of (active_orders s1) tid = Some t \<and> initial_price t = 0"
    by (simp add: ao update_conv' t_def)
  have act: "bot_active s2"
    using place_buy_order_trigger(2) [OF assms(1) assms(3)] assms(4) by (simp add: s2_def s1_def)
  have auth: "authenticated s2"
    using place_buy_order_trigger(4) [OF assms(1) assms(3)] assms(5) by (simp add: s2_def s1_def)
  have dist: "distinct (map fst (active_orders s2))"
    using assms(6) by (simp add: s2_def ao distinct_update)
  have mem: "(tid, t) \<in> set (active_orders s2)"
    by (simp add: s2_def ao update_member)
  have lg: "lg = snd (trigger_monitor later bk s2)"
    by (simp add: assms(9) s2_def s1_def split: prod.splits)
  have noexp: "later - created_at t \<le> ORDER_TIMEOUT_MINUTES * 60"
    using assms(7) by (simp add: t_def)
  have price: "price_data s2 (symbol_token t) = Some p"
    by (simp add: s2_def t_def)
  have p0: "p \<noteq> 0" using assms(8) by simp
  have posted: "execute_trigger s2 bk t = [buy]"
    using execute_trigger_buy [OF _ auth, of t bk] by (simp add: t_def assms(10))
  have ex: "map (snd \<circ> snd) (executed_of tid lg) = (if check_buy_trigger t p then [[buy]] else [])"
    using buy_trigger_tick [OF act dist mem _ _ noexp price p0, where b = bk] posted
    by (simp add: t_def lg)
  have pts: "req_order_type req = POINTS_TRIGGER \<and> req_points req = Some pts
             \<and> round_double pts = pts \<longrightarrow>
            map (snd \<circ> snd) (executed_of tid lg) = (if p \<ge> pts then [[buy]] else [])"
  proof (intro impI, elim conjE)
    assume a: "req_order_type req = POINTS_TRIGGER" "req_points req = Some pts"
      "round_double pts = pts"
    have "check_buy_trigger t p = (p \<ge> pts)"
      using check_buy_trigger_points [of t pts p] a by (simp add: t_def fadd_0)
    then show "map (snd \<circ> snd) (executed_of tid lg) = (if p \<ge> pts then [[buy]] else [])"
      by (simp add: ex)
  qed
  have pct: "req_order_type req = PERCENTAGE_TRIGGER \<and> req_percentage req = Some pct \<longrightarrow>
            map (snd \<circ> snd) (executed_of tid lg) = [[buy]]"
  proof (intro impI, elim conjE)
    assume a: "req_order_type req = PERCENTAGE_TRIGGER" "req_percentage req = Some pct"
    have "check_buy_trigger t p"
      using check_buy_trigger_percentage [of t pct p] a assms(8) by (simp add: t_def fmul_0)
    then show "map (snd \<circ> snd) (executed_of tid lg) = [[buy]]" by (simp add: ex)
  qed
  from first pts pct show ?thesis unfolding s1_def by blast
qed

theorem baseline_zero_entry_trigger_witness:
  "map (snd \<circ> snd) (executed_of ''T1''
     (snd (run [PlaceBuy ''T1'' 0 (scenario_broker []) (scenario_request POINTS_TRIGGER),
                PriceFeed ''3045'' 520, Tick 1 (scenario_broker [])] scenario_fresh_state))) =
     [[Payload ''SBIN-EQ'' ''3045'' ''BUY'' ''NSE'' ''MARKET'' 10]]
   \<and> map (snd \<circ> snd) (executed_of ''T1''
     (snd (run [PlaceBuy ''T1'' 0 (scenario_broker []) (scenario_request POINTS_TRIGGER),
                PriceFeed ''3045'' 4, Tick 1 (scenario_broker [])] scenario_fresh_state))) = []
   \<and> map (snd \<circ> snd) (executed_of ''T1''
     (snd (run [PlaceBuy ''T1'' 0 (scenario_broker []) (scenario_request PERCENTAGE_TRIGGER),
                PriceFeed ''3045'' 520, Tick 1 (scenario_broker [])] scenario_fresh_state))) =
     [[Payload ''SBIN-EQ'' ''3045'' ''BUY'' ''NSE'' ''MARKET'' 10]]"
proof -
  have g: "get_symbol_token scenario_fresh_state ''SBIN-EQ'' ''NSE'' = Inr ''3045''"
    by (simp add: get_symbol_token_def scenario_fresh_state_def)
  have a: "map (snd \<circ> snd) (executed_of ''T1''
     (snd (run [PlaceBuy ''T1'' 0 (scenario_broker []) (scenario_request POINTS_TRIGGER),
                PriceFeed ''3045'' 520, Tick 1 (scenario_broker [])] scenario_fresh_state))) =
     [[Payload ''SBIN-EQ'' ''3045'' ''BUY'' ''NSE'' ''MARKET'' 10]]"
    using baseline_zero_entry_trigger [where s = scenario_fresh_state
        and req = "scenario_request POINTS_TRIGGER" and tok = "''3045''" and now = 0 and later = 1
        and p = 520 and tid = "''T1''" and b = "scenario_broker []" and bk = "scenario_broker []"
        and pts = 5 and pct = 1, OF _ _ _ _ _ _ _ _ refl refl] g round_double_5
    by (simp add: scenario_request_def scenario_fresh_state_def ORDER_TIMEOUT_MINUTES_def)
  have b: "map (snd \<circ> snd) (executed_of ''T1''
     (snd (run [PlaceBuy ''T1'' 0 (scenario_broker []) (scenario_request POINTS_TRIGGER),
                PriceFeed ''3045'' 4, Tick 1 (scenario_broker [])] scenario_fresh_state))) = []"
    using baseline_zero_entry_trigger [where s = scenario_fresh_state
        and req = "scenario_request POINTS_TRIGGER" and tok = "''3045''" and now = 0 and later = 1
        and p = 4 and tid = "''T1''" and b = "scenario_broker []" and bk = "scenario_broker []"
        and pts = 5 and pct = 1, OF _ _ _ _ _ _ _ _ refl refl] g round_double_5
    by (simp add: scenario_request_def scenario_fresh_state_def ORDER_TIMEOUT_MINUTES_def)
  have c: "map (snd \<circ> snd) (executed_of ''T1''
     (snd (run [PlaceBuy ''T1'' 0 (scenario_broker []) (scenario_request PERCENTAGE_TRIGGER),
                PriceFeed ''3045'' 520, Tick 1 (scenario_broker [])] scenario_fresh_state))) =
     [[Payload ''SBIN-EQ'' ''3045'' ''BUY'' ''NSE'' ''MARKET'' 10]]"
    using baseline_zero_entry_trigger [where s = scenario_fresh_state
        and req = "scenario_request PERCENTAGE_TRIGGER" and tok = "''3045''" and now = 0 and later = 1
        and p = 520 and tid = "''T1''" and b = "scenario_broker []" and bk = "scenario_broker []"
        and pts = 5 and pct = 1, OF _ _ _ _ _ _ _ _ refl refl] g
    by (simp add: scenario_request_def scenario_fresh_state_def ORDER_TIMEOUT_MINUTES_def)
  from a b c show ?thesis by simp
qed

subsection \<open>Retirement over runs\<close>

lemma place_buy_order_orders:
  "active_orders (fst (snd (place_buy_order k now b req s))) = active_orders s
   \<or> (\<exists>t. active_orders (fst (snd (place_buy_order k now b req s))) =
            AList.update k t (active_orders s))"
  by (auto simp: place_buy_order_def split: sum.splits prod.splits)

lemma place_sell_order_orders:
  "active_orders (fst (snd (place_sell_order k now b req s))) = active_orders s
   \<or> (\<exists>t. active_orders (fst (snd (place_sell_order k now b req s))) =
            AList.update k t (active_orders s))"
  by (auto simp: place_sell_order_def split: sum.splits prod.splits)

lemma auto_exit_monitor_orders:
  "active_orders (fst (auto_exit_monitor tod b s)) = active_orders s
   \<or> active_orders (fst (auto_exit_monitor tod b s)) = []"
  by (auto simp: auto_exit_monitor_def split: sum.splits)

lemma trigger_monitor_map_of:
  "map_of (active_orders (fst (trigger_monitor now b s))) k = None
   \<or> map_of (active_orders (fst (trigger_monitor now b s))) k = map_of (active_orders s) k"
  by (cases "bot_active s")
     (simp_all add: trigger_monitor_inactive trigger_monitor_orders map_of_remove_triggers)

lemma trigger_monitor_distinct:
  "distinct (map fst (active_orders s)) \<Longrightarrow>
   distinct (map fst (active_orders (fst (trigger_monitor now b s))))"
  by (cases "bot_active s")
     (simp_all add: trigger_monitor_inactive trigger_monitor_orders distinct_remove_triggers)

lemma step_map_of:
  "placed_id e \<noteq> Some k \<Longrightarrow>
   map_of (active_orders (fst (step e s))) k = None
   \<or> map_of (active_orders (fst (step e s))) k = map_of (active_orders s) k"
proof (cases e)
  case (Tick now b)
  then show ?thesis using trigger_monitor_map_of [of now b s k] by simp
next
  case (PlaceBuy k' now b req)
  assume "placed_id e \<noteq> Some k"
  with PlaceBuy have "k' \<noteq> k" by simp
  with PlaceBuy show ?thesis
    using place_buy_order_orders [of k' now b req s] by (auto simp: update_conv')
next
  case (PlaceSell k' now b req)
  assume "placed_id e \<noteq> Some k"
  with PlaceSell have "k' \<noteq> k" by simp
  with PlaceSell show ?thesis
    using place_sell_order_orders [of k' now b req s] by (auto simp: update_conv')
next
  case (CancelTrigger k')
  then show ?thesis
    by (auto simp: cancel_trigger_def delete_conv')
next
  case StartBot
  then show ?thesis by (simp add: start_bot_def)
next
  case StopBot
  then show ?thesis by (simp add: stop_bot_def)
next
  case (AutoExit tod b)
  then show ?thesis using auto_exit_monitor_orders [of tod b s] by auto
next
  case (Login x)
  then show ?thesis by simp
next
  case (PriceFeed tok p)
  then show ?thesis by simp
qed

lemma step_distinct:
  assumes "distinct (map fst (active_orders s))"
  shows "distinct (map fst (active_orders (fst (step e s))))"
proof (cases e)
  case (Tick now b)
  then show ?thesis using assms by (simp add: trigger_monitor_distinct)
next
  case (PlaceBuy k' now b req)
  then show ?thesis
    using place_buy_order_orders [of k' now b req s] assms by (auto simp: distinct_update)
next
  case (PlaceSell k' now b req)
  then show ?thesis
    using place_sell_order_orders [of k' now b req s] assms by (auto simp: distinct_update)
next
  case (CancelTrigger k')
  then show ?thesis using assms
    by (auto simp: cancel_trigger_def distinct_delete)
next
  case StartBot
  then show ?thesis using assms by (simp add: start_bot_def)
next
  case StopBot
  then show ?thesis by (simp add: stop_bot_def)
next
  case (AutoExit tod b)
  then show ?thesis using auto_exit_monitor_orders [of tod b s] assms by auto
next
  case (Login x)
  then show ?thesis using assms by simp
next
  case (PriceFeed tok p)
  then show ?thesis using assms by simp
qed

lemma step_log:
  "snd (step e s) = (case e of Tick now b \<Rightarrow> snd (trigger_monitor now b s) | _ \<Rightarrow> [])"
  by (cases e) (auto split: sum.splits)

lemma tick_executed_absent:
  "map_of (active_orders s) k = None \<Longrightarrow> executed_of k (snd (trigger_monitor now b s)) = []"
proof (cases "bot_active s")
  case True
  assume "map_of (active_orders s) k = None"
  then have "k \<notin> fst ` set (active_orders s)" by (simp add: map_of_eq_None_iff)
  then show ?thesis
    using True by (simp add: executed_of_def trigger_monitor_log executed_absent)
next
  case False
  then show ?thesis by (rule executed_of_inactive_bot)
qed

lemma step_executed_absent:
  "map_of (active_orders s) k = None \<Longrightarrow> executed_of k (snd (step e s)) = []"
proof (cases e)
  case (Tick now b)
  assume "map_of (active_orders s) k = None"
  then show ?thesis using Tick by (simp add: tick_executed_absent)
qed (auto simp: executed_of_def split: sum.splits)

lemma executed_of_append: "executed_of k (xs @ ys) = executed_of k xs @ executed_of k ys"
  by (simp add: executed_of_def)

lemma run_Cons_fst: "fst (run (e # es) s) = fst (run es (fst (step e s)))"
  by (simp add: split_beta)

lemma run_Cons_snd: "snd (run (e # es) s) = snd (step e s) @ snd (run es (fst (step e s)))"
  by (simp add: split_beta)

lemma run_absent:
  "map_of (active_orders s) k = None \<Longrightarrow> \<forall>e\<in>set es. placed_id e \<noteq> Some k \<Longrightarrow>
   executed_of k (snd (run es s)) = [] \<and> map_of (active_orders (fst (run es s))) k = None"
proof (induction es arbitrary: s)
  case Nil
  then show ?case by (simp add: executed_of_def)
next
  case (Cons e es)
  have e: "placed_id e \<noteq> Some k" using Cons.prems(2) by simp
  have n: "map_of (active_orders (fst (step e s))) k = None"
    using step_map_of [OF e, of s] Cons.prems(1) by auto
  have r: "\<forall>e\<in>set es. placed_id e \<noteq> Some k" using Cons.prems(2) by simp
  show ?case
    using Cons.IH [OF n r] step_executed_absent [OF Cons.prems(1), of e]
    by (simp only: run_Cons_fst run_Cons_snd executed_of_append) simp
qed


lemma tick_executed_entry:
  assumes "distinct (map fst (active_orders s))" "map_of (active_orders s) k = Some t"
    "executed_of k (snd (trigger_monitor now b s)) \<noteq> []"
  shows "bot_active s \<and> (\<exists>ps. snd (monitor_one now s b t) = Some ps
           \<and> executed_of k (snd (trigger_monitor now b s)) = [(k, t, ps)])"
proof -
  have act: "bot_active s"
    using assms(3) executed_of_inactive_bot [of s k now b] by blast
  have mem: "(k, t) \<in> set (active_orders s)"
    using assms(2) by (rule map_of_SomeD)
  show ?thesis
    using executed_of_tick [OF act assms(1) mem, of now b] assms(3) act
    by (auto split: option.splits)
qed

lemma executed_of_tick_length:
  assumes "distinct (map fst (active_orders s))"
  shows "length (executed_of k (snd (trigger_monitor now b s))) \<le> 1"
proof (cases "map_of (active_orders s) k")
  case None
  then show ?thesis by (simp add: tick_executed_absent)
next
  case (Some t)
  show ?thesis
  proof (cases "executed_of k (snd (trigger_monitor now b s)) = []")
    case True
    then show ?thesis by simp
  next
    case False
    then show ?thesis using tick_executed_entry [OF assms Some False] by auto
  qed
qed

lemma monitor_one_retires:
  "snd (monitor_one now s b t) = Some ps \<Longrightarrow>
   trigger_type t = sell_trigger \<or> trade_mode t = SINGLE \<Longrightarrow> fst (monitor_one now s b t)"
  by (auto simp: monitor_one_def Let_def split: if_splits trigger_kind.splits)

lemma monitor_one_multi:
  "snd (monitor_one now s b t) = Some ps \<Longrightarrow>
   trigger_type t = buy_trigger \<Longrightarrow> trade_mode t = MULTI \<Longrightarrow> \<not> fst (monitor_one now s b t)"
  by (auto simp: monitor_one_def Let_def split: if_splits trigger_kind.splits)

lemma tick_retires:
  assumes "distinct (map fst (active_orders s))" "map_of (active_orders s) k = Some t"
    "executed_of k (snd (trigger_monitor now b s)) \<noteq> []"
    "trigger_type t = sell_trigger \<or> trade_mode t = SINGLE"
  shows "map_of (active_orders (fst (trigger_monitor now b s))) k = None"
proof -
  from tick_executed_entry [OF assms(1,2,3)] obtain ps where
    act: "bot_active s" and ps: "snd (monitor_one now s b t) = Some ps" by blast
  have "k \<notin> fst ` set (active_orders (fst (trigger_monitor now b s)))"
    using tick_removes [OF act map_of_SomeD [OF assms(2)] monitor_one_retires [OF ps assms(4)]] .
  then show ?thesis by (simp add: map_of_eq_None_iff)
qed

lemma tick_keeps_multi:
  assumes "distinct (map fst (active_orders s))" "map_of (active_orders s) k = Some t"
    "executed_of k (snd (trigger_monitor now b s)) \<noteq> []"
    "trigger_type t = buy_trigger" "trade_mode t = MULTI"
  shows "map_of (active_orders (fst (trigger_monitor now b s))) k = Some t"
proof -
  from tick_executed_entry [OF assms(1,2,3)] obtain ps where
    act: "bot_active s" and ps: "snd (monitor_one now s b t) = Some ps" by blast
  have keep: "\<not> fst (monitor_one now s b t)"
    using monitor_one_multi [OF ps assms(4,5)] .
  have "k \<notin> set (fst (monitor_loop now s b (active_orders s)))"
  proof
    assume "k \<in> set (fst (monitor_loop now s b (active_orders s)))"
    then obtain t' where t': "(k, t') \<in> set (active_orders s)" "fst (monitor_one now s b t')"
      using monitor_loop_removed by blast
    have "map_of (active_orders s) k = Some t'"
      using assms(1) t'(1) by simp
    with assms(2) have "t' = t" by simp
    with t'(2) keep show False by simp
  qed
  then show ?thesis
    using act assms(2) by (simp add: trigger_monitor_orders map_of_remove_triggers)
qed

lemma at_most_once:
  assumes "distinct (map fst (active_orders s))" "map_of (active_orders s) k = Some t"
    "trigger_type t = sell_trigger \<or> trade_mode t = SINGLE"
    "\<forall>e\<in>set es. placed_id e \<noteq> Some k"
  shows "length (executed_of k (snd (run es s))) \<le> 1"
  using assms
proof (induction es arbitrary: s)
  case Nil
  then show ?case by (simp add: executed_of_def)
next
  case (Cons e es)
  let ?s1 = "fst (step e s)"
  have e: "placed_id e \<noteq> Some k" using Cons.prems(4) by simp
  have r: "\<forall>e\<in>set es. placed_id e \<noteq> Some k" using Cons.prems(4) by simp
  have d1: "distinct (map fst (active_orders ?s1))"
    using Cons.prems(1) by (rule step_distinct)
  have sp: "executed_of k (snd (run (e # es) s)) =
      executed_of k (snd (step e s)) @ executed_of k (snd (run es ?s1))"
    by (simp only: run_Cons_snd executed_of_append)
  show ?case
  proof (cases "executed_of k (snd (step e s)) = []")
    case True
    show ?thesis
    proof (cases "map_of (active_orders ?s1) k")
      case None
      then show ?thesis using run_absent [OF None r] True unfolding sp by simp
    next
      case (Some t')
      with step_map_of [OF e, of s] Cons.prems(2) have "map_of (active_orders ?s1) k = Some t"
        by auto
      from Cons.IH [OF d1 this Cons.prems(3) r] True show ?thesis unfolding sp by simp
    qed
  next
    case False
    then obtain now b where tick: "e = Tick now b"
      by (cases e) (auto simp: executed_of_def split: sum.splits)
    have ex: "executed_of k (snd (trigger_monitor now b s)) \<noteq> []"
      using False tick by simp
    have gone: "map_of (active_orders ?s1) k = None"
      using tick_retires [OF Cons.prems(1,2) ex Cons.prems(3)] tick by simp
    have one: "length (executed_of k (snd (step e s))) \<le> 1"
      using executed_of_tick_length [OF Cons.prems(1), of k now b] tick by simp
    show ?thesis using run_absent [OF gone r] one unfolding sp by simp
  qed
qed

text \<open>
  Claim C2. When a pass of trigger_monitor executes a trigger, the trigger is retired by
  its mode: an exit trigger, and an entry trigger in single mode, are no longer in the
  registry after the pass, and in no run that follows (of passes, endpoint calls, price
  updates, auto-exit checks; the id, a fresh uuid, is not issued again) is the trigger
  executed or stored again; an entry trigger in multi mode is still stored after the pass,
  unchanged, so with the same baseline. In every run from a state that stores such a
  retiring trigger, the trigger is executed at most once.
\<close>

theorem fired_trigger_retired:
  assumes "distinct (map fst (active_orders s))" "(tid, t) \<in> set (active_orders s)"
    "\<forall>e\<in>set es. placed_id e \<noteq> Some tid"
    "s' = fst (trigger_monitor now b s)"
  shows "(executed_of tid (snd (trigger_monitor now b s)) \<noteq> []
            \<and> (trigger_type t = sell_trigger \<or> trade_mode t = SINGLE) \<longrightarrow>
          tid \<notin> fst ` set (active_orders s')
          \<and> executed_of tid (snd (run es s')) = []
          \<and> tid \<notin> fst ` set (active_orders (fst (run es s'))))
       \<and> (executed_of tid (snd (trigger_monitor now b s)) \<noteq> []
            \<and> trigger_type t = buy_trigger \<and> trade_mode t = MULTI \<longrightarrow>
          (tid, t) \<in> set (active_orders s'))
       \<and> (trigger_type t = sell_trigger \<or> trade_mode t = SINGLE \<longrightarrow>
          length (executed_of tid (snd (run es s))) \<le> 1)"
proof -
  have m: "map_of (active_orders s) tid = Some t"
    using assms(1,2) by simp
  have a: "tid \<notin> fst ` set (active_orders s')
          \<and> executed_of tid (snd (run es s')) = []
          \<and> tid \<notin> fst ` set (active_orders (fst (run es s')))"
    if "executed_of tid (snd (trigger_monitor now b s)) \<noteq> []"
      "trigger_type t = sell_trigger \<or> trade_mode t = SINGLE"
  proof -
    have gone: "map_of (active_orders s') tid = None"
      using tick_retires [OF assms(1) m that] by (simp add: assms(4))
    from run_absent [OF gone assms(3)] gone show ?thesis
      by (simp add: map_of_eq_None_iff)
  qed
  have c: "(tid, t) \<in> set (active_orders s')"
    if "executed_of tid (snd (trigger_monitor now b s)) \<noteq> []"
      "trigger_type t = buy_trigger" "trade_mode t = MULTI"
    using tick_keeps_multi [OF assms(1) m that] by (simp add: assms(4) map_of_SomeD)
  have d: "length (executed_of tid (snd (run es s))) \<le> 1"
    if "trigger_type t = sell_trigger \<or> trade_mode t = SINGLE"
    using at_most_once [OF assms(1) m that assms(3)] .
  from a c d show ?thesis by blast
qed


lemma scenario_fires:
  "executed_of ''T1''
     (snd (trigger_monitor 10 (scenario_broker [])
            (scenario_state [(''T1'', scenario_trigger\<lparr>trade_mode := m\<rparr>)] 105))) \<noteq> []"
  using buy_trigger_tick [where s = "scenario_state [(''T1'', scenario_trigger\<lparr>trade_mode := m\<rparr>)] 105"
      and tid = "''T1''" and t = "scenario_trigger\<lparr>trade_mode := m\<rparr>" and now = 10 and p = 105
      and b = "scenario_broker []"]
  by (simp add: scenario_state_def scenario_trigger_def ORDER_TIMEOUT_MINUTES_def
      check_buy_trigger_def fadd_100_5)

theorem fired_trigger_retired_witness:
  "''T1'' \<notin> fst ` set (active_orders (fst (trigger_monitor 10 (scenario_broker [])
       (scenario_state [(''T1'', scenario_trigger\<lparr>trade_mode := SINGLE\<rparr>)] 105))))
   \<and> executed_of ''T1''
        (snd (run [Tick 11 (scenario_broker []), PriceFeed ''3045'' 200, Tick 12 (scenario_broker [])]
          (fst (trigger_monitor 10 (scenario_broker [])
            (scenario_state [(''T1'', scenario_trigger\<lparr>trade_mode := SINGLE\<rparr>)] 105))))) = []
   \<and> length (executed_of ''T1''
        (snd (run [Tick 11 (scenario_broker []), PriceFeed ''3045'' 200, Tick 12 (scenario_broker [])]
            (scenario_state [(''T1'', scenario_trigger\<lparr>trade_mode := SINGLE\<rparr>)] 105)))) \<le> 1
   \<and> (''T1'', scenario_trigger\<lparr>trade_mode := MULTI\<rparr>)
        \<in> set (active_orders (fst (trigger_monitor 10 (scenario_broker [])
             (scenario_state [(''T1'', scenario_trigger\<lparr>trade_mode := MULTI\<rparr>)] 105))))"
proof -
  let ?es = "[Tick 11 (scenario_broker []), PriceFeed ''3045'' 200, Tick 12 (scenario_broker [])]"
  have es: "\<forall>e\<in>set ?es. placed_id e \<noteq> Some ''T1''" by simp
  have single: "trade_mode (scenario_trigger\<lparr>trade_mode := SINGLE\<rparr>) = SINGLE" by simp
  have multi: "trigger_type (scenario_trigger\<lparr>trade_mode := MULTI\<rparr>) = buy_trigger
      \<and> trade_mode (scenario_trigger\<lparr>trade_mode := MULTI\<rparr>) = MULTI"
    by (simp add: scenario_trigger_def)
  have a: "''T1'' \<notin> fst ` set (active_orders (fst (trigger_monitor 10 (scenario_broker [])
       (scenario_state [(''T1'', scenario_trigger\<lparr>trade_mode := SINGLE\<rparr>)] 105))))
   \<and> executed_of ''T1''
        (snd (run ?es
          (fst (trigger_monitor 10 (scenario_broker [])
            (scenario_state [(''T1'', scenario_trigger\<lparr>trade_mode := SINGLE\<rparr>)] 105))))) = []
   \<and> length (executed_of ''T1''
        (snd (run ?es
            (scenario_state [(''T1'', scenario_trigger\<lparr>trade_mode := SINGLE\<rparr>)] 105)))) \<le> 1"
    using fired_trigger_retired [where s = "scenario_state [(''T1'', scenario_trigger\<lparr>trade_mode := SINGLE\<rparr>)] 105"
        and tid = "''T1''" and t = "scenario_trigger\<lparr>trade_mode := SINGLE\<rparr>" and es = ?es
        and now = 10 and b = "scenario_broker []", OF _ _ es refl]
      scenario_fires [of SINGLE] single
    by (simp add: scenario_state_def)
  have b: "(''T1'', scenario_trigger\<lparr>trade_mode := MULTI\<rparr>)
        \<in> set (active_orders (fst (trigger_monitor 10 (scenario_broker [])
             (scenario_state [(''T1'', scenario_trigger\<lparr>trade_mode := MULTI\<rparr>)] 105))))"
    using fired_trigger_retired [where s = "scenario_state [(''T1'', scenario_trigger\<lparr>trade_mode := MULTI\<rparr>)] 105"
        and tid = "''T1''" and t = "scenario_trigger\<lparr>trade_mode := MULTI\<rparr>" and es = ?es
        and now = 10 and b = "scenario_broker []", OF _ _ es refl]
      scenario_fires [of MULTI] multi
    by (simp add: scenario_state_def)
  from a b show ?thesis by simp
qed

section \<open>Properties of the auto-exit scheduler\<close>

lemma find_sell_quantity_own:
  "distinct (map symboltoken (filter (\<lambda>pos. netqty pos > 0) poss)) \<Longrightarrow>
   pos \<in> set poss \<Longrightarrow> netqty pos > 0 \<Longrightarrow>
   find_sell_quantity (symboltoken pos) poss = netqty pos"
proof (induction poss)
  case Nil
  then show ?case by simp
next
  case (Cons a poss)
  show ?case
  proof (cases "a = pos")
    case True
    with Cons.prems show ?thesis by simp
  next
    case False
    with Cons.prems have mem: "pos \<in> set poss" by simp
    show ?thesis
    proof (cases "symboltoken a = symboltoken pos \<and> netqty a > 0")
      case True
      with Cons.prems mem have False by (auto simp: image_iff)
      then show ?thesis ..
    next
      case False
      with Cons.prems mem Cons.IH show ?thesis by (auto split: if_splits)
    qed
  qed
qed

lemma execute_market_order_close:
  assumes "authenticated s" "getPosition b = Some poss"
    "distinct (map symboltoken (filter (\<lambda>pos. netqty pos > 0) poss))"
    "pos \<in> set poss" "netqty pos > 0"
  shows "snd (execute_market_order s b (tradingsymbol pos) (pos_exchange pos) (symboltoken pos)
                0 ''SELL'') = [closing_order pos]"
  using assms find_sell_quantity_own [OF assms(3,4,5)]
  by (simp add: execute_market_order_def get_positions_def post_order_def closing_order_def
      Let_def split: option.splits)

lemma close_positions_long:
  assumes "authenticated s" "getPosition b = Some poss"
    "distinct (map symboltoken (filter (\<lambda>pos. netqty pos > 0) poss))"
  shows "set xs \<subseteq> set poss \<Longrightarrow>
     close_positions s b xs = map closing_order (filter (\<lambda>pos. netqty pos > 0) xs)"
proof (induction xs)
  case Nil
  then show ?case by simp
next
  case (Cons a xs)
  then have mem: "a \<in> set poss" and rest: "set xs \<subseteq> set poss" by simp_all
  show ?case
    using Cons.IH [OF rest] execute_market_order_close [OF assms mem]
    by simp
qed

lemma auto_exit_monitor_disabled:
  "\<not> bot_active s \<Longrightarrow> auto_exit_monitor tod b s = (s, [], 60)"
  by (simp add: auto_exit_monitor_def)

text \<open>
  Claim C3, as amended. When a pass of auto_exit_monitor sees a time of day at or past
  15:25 while the bot is enabled and authenticated and the position query succeeds, it
  posts one SELL market order for every listed position with a positive net quantity,
  sized to that net quantity (the symbol tokens of the long positions being distinct), and
  none for a position whose net quantity is zero or negative; it then disables the bot and
  empties the trigger registry, and until the bot is started again no pass of
  auto_exit_monitor or of trigger_monitor does anything.
\<close>

theorem auto_exit_closes_long_positions:
  assumes "current_time \<ge> AUTO_EXIT_TIME" "bot_active s" "authenticated s"
    "getPosition b = Some poss"
    "distinct (map symboltoken (filter (\<lambda>pos. netqty pos > 0) poss))"
    "s' = fst (auto_exit_monitor current_time b s)"
  shows "fst (snd (auto_exit_monitor current_time b s)) =
           map closing_order (filter (\<lambda>pos. netqty pos > 0) poss)
       \<and> \<not> bot_active s' \<and> active_orders s' = []
       \<and> (\<forall>tod bk. auto_exit_monitor tod bk s' = (s', [], 60))
       \<and> (\<forall>now bk. trigger_monitor now bk s' = (s', []))"
proof -
  have r: "auto_exit_monitor current_time b s =
      (s\<lparr>bot_active := False, active_orders := []\<rparr>, close_positions s b poss, 300)"
    using assms(1,2,3,4) by (simp add: auto_exit_monitor_def get_positions_def)
  have c: "close_positions s b poss = map closing_order (filter (\<lambda>pos. netqty pos > 0) poss)"
    using close_positions_long [OF assms(3,4,5), of poss] by simp
  have off: "\<not> bot_active s'" by (simp add: assms(6) r)
  show ?thesis
    using off by (simp add: r c assms(6) auto_exit_monitor_disabled trigger_monitor_inactive)
qed

theorem auto_exit_closes_long_positions_witness:
  "fst (snd (auto_exit_monitor (15 * 3600 + 25 * 60)
       (scenario_broker [scenario_position 10 100,
          scenario_position 5 2850\<lparr>symboltoken := ''2885'', tradingsymbol := ''RELIANCE-EQ''\<rparr>])
       (scenario_state [(''T1'', scenario_trigger)] 100))) =
     [Payload ''SBIN-EQ'' ''3045'' ''SELL'' ''NSE'' ''MARKET'' 10,
      Payload ''RELIANCE-EQ'' ''2885'' ''SELL'' ''NSE'' ''MARKET'' 5]
   \<and> \<not> bot_active (fst (auto_exit_monitor (15 * 3600 + 25 * 60)
       (scenario_broker [scenario_position 10 100,
          scenario_position 5 2850\<lparr>symboltoken := ''2885'', tradingsymbol := ''RELIANCE-EQ''\<rparr>])
       (scenario_state [(''T1'', scenario_trigger)] 100)))
   \<and> active_orders (fst (auto_exit_monitor (15 * 3600 + 25 * 60)
       (scenario_broker [scenario_position 10 100,
          scenario_position 5 2850\<lparr>symboltoken := ''2885'', tradingsymbol := ''RELIANCE-EQ''\<rparr>])
       (scenario_state [(''T1'', scenario_trigger)] 100))) = []"
  using auto_exit_closes_long_positions [where current_time = "15 * 3600 + 25 * 60"
      and s = "scenario_state [(''T1'', scenario_trigger)] 100"
      and b = "scenario_broker [scenario_position 10 100,
          scenario_position 5 2850\<lparr>symboltoken := ''2885'', tradingsymbol := ''RELIANCE-EQ''\<rparr>]"
      and poss = "[scenario_position 10 100,
          scenario_position 5 2850\<lparr>symboltoken := ''2885'', tradingsymbol := ''RELIANCE-EQ''\<rparr>]",
      OF _ _ _ _ _ refl]
  by (simp add: scenario_state_def scenario_broker_def scenario_position_def AUTO_EXIT_TIME_def
      closing_order_def)

text \<open>
  The claim as stated fails for a short position: at 15:30, with one position of net
  quantity -5, no order is posted.
\<close>

theorem auto_exit_short_position_counterexample:
  "netqty (scenario_position (- 5) 0) \<noteq> 0
   \<and> AUTO_EXIT_TIME \<le> 15 * 3600 + 30 * 60
   \<and> bot_active (scenario_state [] 100)
   \<and> fst (snd (auto_exit_monitor (15 * 3600 + 30 * 60)
                 (scenario_broker [scenario_position (- 5) 0]) (scenario_state [] 100))) = []"
  by (simp add: auto_exit_monitor_def get_positions_def scenario_broker_def scenario_state_def
      scenario_position_def AUTO_EXIT_TIME_def)

section \<open>Properties of the simulated exchange\<close>

lemma py_round2_zero: "py_round2 0 = 0"
  by (simp add: py_round2_def round_half_even_def round_double_0)


lemma process_order_fill:
  assumes "orders m oid = Some order" "r < success_rate order"
  shows "positions (process_order r oid m) =
     (positions m)(position_key order \<mapsto>
        update_position
          (case positions m (position_key order) of
             None \<Rightarrow> new_position order (get_ltp (mock_price_data m) (ord_symboltoken order))
           | Some pos \<Rightarrow> pos)
          (transactiontype order) (ord_quantity order) (execution_price m order)
          (get_ltp (mock_price_data m) (ord_symboltoken order)))"
  using assms by (simp add: process_order_def Let_def)

lemma update_position_buy:
  "netqty (update_position pos ''BUY'' qty fp cp) = netqty pos + qty"
  "avgprice (update_position pos ''BUY'' qty fp cp) =
     (if netqty pos + qty > 0
      then py_round2 (weighted_average (netqty pos) (avgprice pos) qty fp)
      else 0)"
  "buyqty (update_position pos ''BUY'' qty fp cp) = buyqty pos + qty"
  "sellqty (update_position pos ''BUY'' qty fp cp) = sellqty pos"
  by (simp_all add: update_position_def Let_def py_round2_zero)

lemma update_position_sell:
  "side \<noteq> ''BUY'' \<Longrightarrow> netqty (update_position pos side qty fp cp) = netqty pos - qty"
  "side \<noteq> ''BUY'' \<Longrightarrow> avgprice (update_position pos side qty fp cp) =
     (if netqty pos - qty = 0 then 0 else avgprice pos)"
  "side \<noteq> ''BUY'' \<Longrightarrow> buyqty (update_position pos side qty fp cp) = buyqty pos"
  "side \<noteq> ''BUY'' \<Longrightarrow> sellqty (update_position pos side qty fp cp) = sellqty pos + qty"
  by (simp_all add: update_position_def Let_def)





lemma process_order_rejected:
  assumes "orders m oid = Some order" "\<not> r < success_rate order"
  shows "process_order r oid m =
     m\<lparr>orders := (orders m)(oid \<mapsto> order\<lparr>ord_status := ''rejected'', orderstatus := ''rejected''\<rparr>)\<rparr>"
  using assms by (simp add: process_order_def)

lemma modify_order_not_pending:
  "orders m oid = Some order \<Longrightarrow> ord_status order \<noteq> ''pending'' \<Longrightarrow>
   snd (modify_order a oid p q m) = m"
  by (simp add: modify_order_def)

lemma cancel_order_not_pending:
  "orders m oid = Some order \<Longrightarrow> ord_status order \<noteq> ''pending'' \<Longrightarrow>
   snd (cancel_order a oid m) = m"
  by (simp add: cancel_order_def)

text \<open>
  Claim C7. When process_order resolves an order to rejected, the trades, the trade
  counter and the positions are as before, every other order is as before, and the order
  stays stored with status rejected: neither modify_order nor cancel_order changes the
  store afterwards.
\<close>

theorem rejected_order_no_effect:
  assumes "orders m oid = Some order" "\<not> r < success_rate order"
    "m' = process_order r oid m"
  shows "trades m' = trades m \<and> trade_counter m' = trade_counter m
       \<and> positions m' = positions m
       \<and> orders m' oid = Some (order\<lparr>ord_status := ''rejected'', orderstatus := ''rejected''\<rparr>)
       \<and> (\<forall>k. k \<noteq> oid \<longrightarrow> orders m' k = orders m k)
       \<and> (\<forall>a p q. snd (modify_order a oid p q m') = m')
       \<and> (\<forall>a. snd (cancel_order a oid m') = m')"
proof -
  note m' = process_order_rejected [OF assms(1,2), folded assms(3)]
  have o: "orders m' oid = Some (order\<lparr>ord_status := ''rejected'', orderstatus := ''rejected''\<rparr>)"
    by (simp add: m')
  have st: "ord_status (order\<lparr>ord_status := ''rejected'', orderstatus := ''rejected''\<rparr>) \<noteq> ''pending''"
    by simp
  have "\<And>a p q. snd (modify_order a oid p q m') = m'"
    using modify_order_not_pending [OF o st] .
  moreover have "\<And>a. snd (cancel_order a oid m') = m'"
    using cancel_order_not_pending [OF o st] .
  ultimately show ?thesis using o by (simp add: m')
qed

theorem rejected_order_no_effect_witness:
  "trades (process_order (99 / 100) 1 (scenario_store ''BUY'')) = Map.empty
   \<and> positions (process_order (99 / 100) 1 (scenario_store ''BUY'')) = Map.empty
   \<and> (\<exists>order. orders (process_order (99 / 100) 1 (scenario_store ''BUY'')) 1 = Some order
         \<and> ord_status order = ''rejected'')"
  using rejected_order_no_effect [where m = "scenario_store ''BUY''" and oid = 1 and r = "99 / 100"
      and order = "the (orders (scenario_store ''BUY'') 1)", OF _ _ refl]
  by (simp add: scenario_store_def MockDataStore_init_def success_rate_def)

lemma update_position_quantities:
  "netqty (update_position pos side qty fp cp) =
     netqty pos + (if side = ''BUY'' then qty else - qty)"
  "buyqty (update_position pos side qty fp cp) = buyqty pos + (if side = ''BUY'' then qty else 0)"
  "sellqty (update_position pos side qty fp cp) = sellqty pos + (if side = ''BUY'' then 0 else qty)"
  by (simp_all add: update_position_def Let_def)

lemma update_position_flat:
  "netqty (update_position pos side qty fp cp) = 0 \<Longrightarrow>
   avgprice (update_position pos side qty fp cp) = 0"
  by (cases "side = ''BUY''") (simp_all add: update_position_buy update_position_sell)

lemma ledger_ok_update:
  "netqty pos = buyqty pos - sellqty pos \<Longrightarrow> ledger_ok (update_position pos side qty fp cp)"
  unfolding ledger_ok_def
  using update_position_flat [of pos side qty fp cp]
  by (simp add: update_position_quantities)

lemma ledger_ok_new: "ledger_ok (new_position order cp)"
  by (simp add: ledger_ok_def new_position_def)

lemma apply_fills_quantities:
  "netqty (apply_fills pos fills) = netqty pos + bought fills - sold fills
   \<and> buyqty (apply_fills pos fills) = buyqty pos + bought fills
   \<and> sellqty (apply_fills pos fills) = sellqty pos + sold fills"
proof (induction fills arbitrary: pos)
  case Nil
  then show ?case by (simp add: bought_def sold_def)
next
  case (Cons f fills)
  obtain side qty fp cp where f: "f = (side, qty, fp, cp)" by (cases f)
  show ?case
    using Cons.IH [of "update_position pos side qty fp cp"]
    by (simp add: f update_position_quantities bought_def sold_def)
qed

lemma apply_fills_ok:
  "ledger_ok pos \<Longrightarrow> ledger_ok (apply_fills pos fills)"
proof (induction fills arbitrary: pos)
  case Nil
  then show ?case by simp
next
  case (Cons f fills)
  obtain side qty fp cp where f: "f = (side, qty, fp, cp)" by (cases f)
  have "ledger_ok (update_position pos side qty fp cp)"
    using Cons.prems by (intro ledger_ok_update) (simp add: ledger_ok_def)
  then show ?case using Cons.IH by (simp add: f)
qed

lemma ledger_inv_process_order:
  assumes "ledger_inv m"
  shows "ledger_inv (process_order r oid m)"
proof (cases "orders m oid")
  case None
  then show ?thesis using assms by (simp add: process_order_def)
next
  case (Some order)
  show ?thesis
  proof (cases "r < success_rate order")
    case True
    let ?old = "case positions m (position_key order) of
        None \<Rightarrow> new_position order (get_ltp (mock_price_data m) (ord_symboltoken order))
      | Some pos \<Rightarrow> pos"
    have "ledger_ok ?old"
      using assms by (auto simp: ledger_inv_def ledger_ok_new ran_def split: option.splits)
    then have new: "ledger_ok (update_position ?old (transactiontype order) (ord_quantity order)
        (execution_price m order) (get_ltp (mock_price_data m) (ord_symboltoken order)))"
      by (intro ledger_ok_update) (simp add: ledger_ok_def)
    show ?thesis
      unfolding ledger_inv_def process_order_fill [OF Some True]
      using assms new by (auto simp: ledger_inv_def ran_def split: if_splits)
  next
    case False
    then show ?thesis
      using assms by (simp add: process_order_rejected [OF Some False] ledger_inv_def)
  qed
qed

lemma positions_place_order: "positions (snd (place_order a req m)) = positions m"
  by (simp add: place_order_def Let_def)

lemma positions_modify_order: "positions (snd (modify_order a oid p q m)) = positions m"
  by (simp add: modify_order_def split: option.splits)

lemma positions_cancel_order: "positions (snd (cancel_order a oid m)) = positions m"
  by (simp add: cancel_order_def split: option.splits)

lemma ledger_inv_step:
  assumes "ledger_inv (fst st)"
  shows "ledger_inv (fst (mock_step e st))"
proof -
  obtain m threads where st: "st = (m, threads)" by (cases st)
  show ?thesis
  proof (cases e)
    case (Place a req)
    have "positions (fst (mock_step e st)) = positions m"
      using positions_place_order [of a req m]
      by (auto simp: st Place split: prod.splits sum.splits bool.splits)
    then show ?thesis using assms by (simp add: ledger_inv_def st)
  next
    case (Resolve r oid)
    then show ?thesis using assms by (simp add: st ledger_inv_process_order)
  next
    case (Modify a oid p q)
    then show ?thesis using assms by (simp add: st ledger_inv_def positions_modify_order)
  next
    case (Cancel a oid)
    then show ?thesis using assms by (simp add: st ledger_inv_def positions_cancel_order)
  qed
qed

lemma ledger_inv_run:
  "ledger_inv (fst st) \<Longrightarrow> ledger_inv (fst (mock_run es st))"
  by (induction es arbitrary: st) (simp_all add: ledger_inv_step)

text \<open>
  Claim C8. In every run of the exchange from a store without positions (orders placed,
  resolved, modified, cancelled, in any order), every position satisfies
  \<open>netqty = buyqty - sellqty\<close>, and its average price is 0 whenever its net quantity is 0.
  For every sequence of fills applied to a new position, after every fill (every prefix of
  the sequence): the bought quantity is the sum of the BUY quantities, the sold quantity
  the sum of the others, the net quantity their difference, and the average price is 0
  when the net quantity is 0.
\<close>

theorem net_quantity_invariant:
  assumes "positions m = Map.empty" "pos \<in> ran (positions (fst (mock_run es (m, threads))))"
  shows "netqty pos = buyqty pos - sellqty pos
       \<and> (netqty pos = 0 \<longrightarrow> avgprice pos = 0)
       \<and> (\<forall>order cp fills n.
            netqty (apply_fills (new_position order cp) (take n fills)) =
              bought (take n fills) - sold (take n fills)
            \<and> buyqty (apply_fills (new_position order cp) (take n fills)) = bought (take n fills)
            \<and> sellqty (apply_fills (new_position order cp) (take n fills)) = sold (take n fills)
            \<and> (netqty (apply_fills (new_position order cp) (take n fills)) = 0 \<longrightarrow>
                 avgprice (apply_fills (new_position order cp) (take n fills)) = 0))"
proof -
  have "ledger_inv (fst (m, threads))"
    using assms(1) by (simp add: ledger_inv_def)
  then have "ledger_inv (fst (mock_run es (m, threads)))"
    by (rule ledger_inv_run)
  then have a: "ledger_ok pos"
    using assms(2) by (simp add: ledger_inv_def)
  have b: "netqty (apply_fills (new_position order cp) fs) = bought fs - sold fs
      \<and> buyqty (apply_fills (new_position order cp) fs) = bought fs
      \<and> sellqty (apply_fills (new_position order cp) fs) = sold fs" for order cp fs
    using apply_fills_quantities [of "new_position order cp" fs]
    by (simp add: new_position_def)
  have c: "ledger_ok (apply_fills (new_position order cp) fs)" for order cp fs
    using ledger_ok_new by (rule apply_fills_ok)
  show ?thesis
    using a b c unfolding ledger_ok_def by blast
qed

lemma scenario_fills_position:
  "case positions (fst (mock_run scenario_fills (MockDataStore_init [''3045'' \<mapsto> 1041 / 2], [])))
          ''3045_NSE'' of
     None \<Rightarrow> False
   | Some pos \<Rightarrow> buyqty pos = 10 \<and> sellqty pos = 10"
  by code_simp

theorem net_quantity_invariant_witness:
  "\<exists>pos. positions (fst (mock_run scenario_fills (MockDataStore_init [''3045'' \<mapsto> 1041 / 2], [])))
            ''3045_NSE'' = Some pos
     \<and> buyqty pos = 10 \<and> sellqty pos = 10 \<and> netqty pos = 0 \<and> avgprice pos = 0"
proof -
  from scenario_fills_position obtain pos where
    pos: "positions (fst (mock_run scenario_fills (MockDataStore_init [''3045'' \<mapsto> 1041 / 2], [])))
            ''3045_NSE'' = Some pos"
    and q: "buyqty pos = 10" "sellqty pos = 10"
    by (auto split: option.splits)
  have mem: "pos \<in> ran (positions (fst (mock_run scenario_fills
      (MockDataStore_init [''3045'' \<mapsto> 1041 / 2], []))))"
    using pos by (auto simp: ran_def)
  have init: "positions (MockDataStore_init [''3045'' \<mapsto> 1041 / 2]) = Map.empty"
    by (simp add: MockDataStore_init_def)
  from net_quantity_invariant [OF init mem] q pos show ?thesis by auto
qed

lemma process_order_status:
  assumes "orders m oid = Some order"
  shows "\<exists>order'. orders (process_order r oid m) oid = Some order' \<and> resolved order'"
  using assms by (simp add: process_order_def resolved_def Let_def)

lemma process_order_others:
  "k \<noteq> oid \<Longrightarrow> orders (process_order r oid m) k = orders m k"
  by (simp add: process_order_def Let_def split: option.splits)

lemma process_order_dom: "dom (orders (process_order r oid m)) = dom (orders m)"
  by (auto simp: process_order_def Let_def split: option.splits if_splits)

lemma process_order_counter: "order_counter (process_order r oid m) = order_counter m"
  by (simp add: process_order_def Let_def split: option.splits)

lemma modify_order_status:
  "orders m k = Some order \<Longrightarrow>
   \<exists>order'. orders (snd (modify_order a oid p q m)) k = Some order'
      \<and> ord_status order' = ord_status order"
  by (auto simp: modify_order_def split: option.splits)

lemma modify_order_dom: "dom (orders (snd (modify_order a oid p q m))) = dom (orders m)"
  by (auto simp: modify_order_def split: option.splits if_splits)

lemma modify_order_counter: "order_counter (snd (modify_order a oid p q m)) = order_counter m"
  by (simp add: modify_order_def split: option.splits)

lemma modify_order_resolved:
  "orders (snd (modify_order a oid p q m)) k = Some order' \<Longrightarrow> resolved order' \<Longrightarrow>
   \<exists>order. orders m k = Some order \<and> resolved order"
  by (auto simp: modify_order_def resolved_def split: option.splits if_splits)

lemma cancel_order_pending:
  "orders m oid = Some order \<Longrightarrow> ord_status order = ''pending'' \<Longrightarrow>
   orders (snd (cancel_order True oid m)) oid =
     Some (order\<lparr>ord_status := ''cancelled'', orderstatus := ''cancelled''\<rparr>)"
  by (simp add: cancel_order_def)

lemma cancel_order_resolved_kept:
  "orders m k = Some order \<Longrightarrow> resolved order \<Longrightarrow>
   orders (snd (cancel_order a oid m)) k = Some order"
  by (auto simp: cancel_order_def resolved_def split: option.splits)

lemma cancel_order_dom: "dom (orders (snd (cancel_order a oid m))) = dom (orders m)"
  by (auto simp: cancel_order_def split: option.splits if_splits)

lemma cancel_order_counter: "order_counter (snd (cancel_order a oid m)) = order_counter m"
  by (simp add: cancel_order_def split: option.splits)

lemma cancel_order_resolved:
  "orders (snd (cancel_order a oid m)) k = Some order' \<Longrightarrow> resolved order' \<Longrightarrow>
   \<exists>order. orders m k = Some order \<and> resolved order"
  by (auto simp: cancel_order_def resolved_def split: option.splits if_splits)

lemma place_order_cases:
  "(fst (place_order a req m) \<noteq> Inr True
      \<and> orders (snd (place_order a req m)) = orders m
      \<and> order_counter (snd (place_order a req m)) \<ge> order_counter m)
   \<or> (fst (place_order a req m) = Inr True
      \<and> order_counter (snd (place_order a req m)) = order_counter m + 1
      \<and> (\<exists>order. ord_status order = ''pending''
            \<and> orders (snd (place_order a req m)) = (orders m)(order_counter m + 1 \<mapsto> order)))"
proof (cases "a \<and> po_symboltoken req \<in> set scrip_master_tokens")
  case True
  let ?order = "\<lparr>orderid = order_counter m + 1, ord_tradingsymbol = po_tradingsymbol req,
     ord_symboltoken = po_symboltoken req, transactiontype = po_transactiontype req,
     ord_exchange = po_exchange req, ordertype = po_ordertype req, price = po_price req,
     ord_quantity = po_quantity req, ord_status = ''pending'', orderstatus = ''open''\<rparr>"
  have "ord_status ?order = ''pending''" by simp
  moreover have "orders (snd (place_order a req m)) = (orders m)(order_counter m + 1 \<mapsto> ?order)"
    using True by (simp add: place_order_def Let_def)
  moreover have "fst (place_order a req m) = Inr True"
    using True by (simp add: place_order_def Let_def)
  moreover have "order_counter (snd (place_order a req m)) = order_counter m + 1"
    using True by (simp add: place_order_def Let_def)
  ultimately show ?thesis by blast
next
  case False
  then show ?thesis by (auto simp: place_order_def Let_def)
qed

subsection \<open>Order status\<close>

lemma mock_step_place:
  "mock_step (Place a req) (m, threads) =
     (snd (place_order a req m),
      if fst (place_order a req m) = Inr True
      then order_counter (snd (place_order a req m)) # threads else threads)"
  by (cases "place_order a req m") (auto split: sum.splits bool.splits)

lemma exchange_inv_place:
  assumes "exchange_inv (m, threads)"
  shows "exchange_inv (mock_step (Place a req) (m, threads))"
proof -
  let ?m' = "snd (place_order a req m)"
  from place_order_cases [of a req m] show ?thesis
  proof (elim disjE conjE exE)
    assume "fst (place_order a req m) \<noteq> Inr True" "orders ?m' = orders m"
      "order_counter m \<le> order_counter ?m'"
    then have ne: "fst (place_order a req m) \<noteq> Inr True"
      and eq: "orders ?m' = orders m" and le: "order_counter m \<le> order_counter ?m'"
      by simp_all
    have b: "\<forall>k\<in>dom (orders m). k \<le> order_counter m" "distinct threads"
      "set threads \<subseteq> dom (orders m)"
      "\<forall>k order. orders m k = Some order \<and> resolved order \<longrightarrow> k \<notin> set threads"
      using assms by (simp_all add: exchange_inv_def)
    have "\<forall>k\<in>dom (orders ?m'). k \<le> order_counter ?m'"
      using b(1) le eq by force
    then have "exchange_inv (?m', threads)"
      using b eq by (simp add: exchange_inv_def)
    then show ?thesis
      unfolding mock_step_place using ne by simp
  next
    fix order
    assume ok: "fst (place_order a req m) = Inr True"
      and c: "order_counter ?m' = order_counter m + 1"
      and p: "ord_status order = ''pending''"
      and o: "orders ?m' = (orders m)(order_counter m + 1 \<mapsto> order)"
    have fresh: "order_counter m + 1 \<notin> dom (orders m)"
    proof
      assume "order_counter m + 1 \<in> dom (orders m)"
      moreover have "\<forall>k\<in>dom (orders m). k \<le> order_counter m"
        using assms by (simp add: exchange_inv_def)
      ultimately have "order_counter m + 1 \<le> order_counter m" by blast
      then show False by simp
    qed
    then have nt: "order_counter m + 1 \<notin> set threads"
      using assms by (auto simp: exchange_inv_def)
    have nr: "\<not> resolved order" using p by (simp add: resolved_def)
    have le: "\<And>k y. orders m k = Some y \<Longrightarrow> k \<le> order_counter m + 1"
    proof -
      fix k y assume "orders m k = Some y"
      then have "k \<in> dom (orders m)" by blast
      moreover have "\<forall>k\<in>dom (orders m). k \<le> order_counter m"
        using assms by (simp add: exchange_inv_def)
      ultimately have "k \<le> order_counter m" by blast
      then show "k \<le> order_counter m + 1" by simp
    qed
    show ?thesis
      unfolding mock_step_place exchange_inv_def
      using assms fresh nt nr ok le
      by (auto simp: c o exchange_inv_def split: if_splits)
  qed
qed

lemma exchange_inv_resolve:
  assumes "exchange_inv (m, threads)"
  shows "exchange_inv (mock_step (Resolve r oid) (m, threads))"
proof (cases "oid \<in> set threads")
  case False
  then show ?thesis using assms by simp
next
  case True
  have d: "distinct threads" using assms by (simp add: exchange_inv_def)
  have gone: "oid \<notin> set (remove1 oid threads)" using d by simp
  have sub: "set (remove1 oid threads) \<subseteq> set threads" by (rule set_remove1_subset)
  have res: "k \<notin> set (remove1 oid threads)"
    if "orders (process_order r oid m) k = Some order" "resolved order" for k order
  proof (cases "k = oid")
    case True
    then show ?thesis using gone by simp
  next
    case False
    then have "orders m k = Some order" using that(1) by (simp add: process_order_others)
    then have "k \<notin> set threads" using assms that(2) by (auto simp: exchange_inv_def)
    then show ?thesis using sub by blast
  qed
  show ?thesis
    using True assms d sub res
    by (auto simp: exchange_inv_def process_order_dom process_order_counter)
qed

lemma exchange_inv_modify:
  assumes "exchange_inv (m, threads)"
  shows "exchange_inv (mock_step (Modify a oid p q) (m, threads))"
  using assms modify_order_resolved [of a oid p q m]
  by (auto simp: exchange_inv_def modify_order_dom modify_order_counter)

lemma exchange_inv_cancel:
  assumes "exchange_inv (m, threads)"
  shows "exchange_inv (mock_step (Cancel a oid) (m, threads))"
  using assms cancel_order_resolved [of a oid m]
  by (auto simp: exchange_inv_def cancel_order_dom cancel_order_counter)

lemma exchange_inv_step: "exchange_inv st \<Longrightarrow> exchange_inv (mock_step e st)"
  by (cases st; cases e)
     (simp_all only: exchange_inv_place exchange_inv_resolve exchange_inv_modify
        exchange_inv_cancel)

lemma resolved_kept_step:
  assumes "exchange_inv st" "orders (fst st) k = Some order" "resolved order"
  shows "\<exists>order'. orders (fst (mock_step e st)) k = Some order'
           \<and> ord_status order' = ord_status order"
proof -
  obtain m threads where st: "st = (m, threads)" by (cases st)
  have o: "orders m k = Some order" using assms(2) by (simp add: st)
  show ?thesis
  proof (cases e)
    case (Place a req)
    have "k \<le> order_counter m" using assms(1) o by (auto simp: exchange_inv_def st)
    then have "orders (snd (place_order a req m)) k = Some order"
      using place_order_cases [of a req m] o by auto
    then show ?thesis unfolding st Place mock_step_place by simp
  next
    case (Resolve r oid)
    have nt: "k \<notin> set threads" using assms(1,3) o by (auto simp: exchange_inv_def st)
    show ?thesis
    proof (cases "oid \<in> set threads")
      case True
      with nt have "k \<noteq> oid" by blast
      then show ?thesis using o True by (simp add: st Resolve process_order_others)
    next
      case False
      then show ?thesis using o by (simp add: st Resolve)
    qed
  next
    case (Modify a oid p q)
    then show ?thesis using modify_order_status [OF o, of a oid p q] by (simp add: st)
  next
    case (Cancel a oid)
    then show ?thesis using cancel_order_resolved_kept [OF o assms(3), of a oid] by (simp add: st)
  qed
qed

lemma exchange_inv_run: "exchange_inv st \<Longrightarrow> exchange_inv (mock_run es st)"
  by (induction es arbitrary: st) (simp_all add: exchange_inv_step)

lemma resolved_kept_run:
  "exchange_inv st \<Longrightarrow> orders (fst st) k = Some order \<Longrightarrow> resolved order \<Longrightarrow>
   \<exists>order'. orders (fst (mock_run es st)) k = Some order' \<and> ord_status order' = ord_status order"
proof (induction es arbitrary: st order)
  case Nil
  then show ?case by simp
next
  case (Cons e es)
  from resolved_kept_step [OF Cons.prems, of e] obtain order1 where
    o1: "orders (fst (mock_step e st)) k = Some order1" "ord_status order1 = ord_status order"
    by blast
  have r1: "resolved order1" using Cons.prems(3) o1(2) by (simp add: resolved_def)
  from Cons.IH [OF exchange_inv_step [OF Cons.prems(1)] o1(1) r1] o1(2) show ?case
    by simp
qed

lemma exchange_inv_init: "exchange_inv (MockDataStore_init prices, [])"
  by (simp add: exchange_inv_def MockDataStore_init_def)

text \<open>
  Claim C9, as amended. For an order stored in a state that a run of the exchange reaches
  from its initial store: while it is pending, process_order takes it to complete or to
  rejected, and cancel_order takes it to cancelled; modify_order never changes a status;
  once it is complete or rejected, modify_order and cancel_order leave the store as it
  is, no thread is left to resolve it, and in every run that follows it keeps its status.
\<close>

theorem order_status_transitions:
  assumes "st = mock_run hist (MockDataStore_init prices, [])" "orders (fst st) k = Some order"
  shows "(ord_status order = ''pending'' \<longrightarrow>
            (\<exists>order'. orders (process_order r k (fst st)) k = Some order'
               \<and> (ord_status order' = ''complete'' \<or> ord_status order' = ''rejected''))
            \<and> (\<exists>order'. orders (snd (cancel_order True k (fst st))) k = Some order'
               \<and> ord_status order' = ''cancelled''))
       \<and> (\<exists>order'. orders (snd (modify_order a k p q (fst st))) k = Some order'
             \<and> ord_status order' = ord_status order)
       \<and> (ord_status order = ''complete'' \<or> ord_status order = ''rejected'' \<longrightarrow>
            snd (modify_order a k p q (fst st)) = fst st
            \<and> snd (cancel_order a k (fst st)) = fst st
            \<and> k \<notin> set (snd st)
            \<and> (\<exists>order'. orders (fst (mock_run es st)) k = Some order'
                  \<and> ord_status order' = ord_status order))"
proof -
  have inv: "exchange_inv st"
    unfolding assms(1) using exchange_inv_init by (rule exchange_inv_run)
  have a: "\<exists>order'. orders (process_order r k (fst st)) k = Some order'
               \<and> (ord_status order' = ''complete'' \<or> ord_status order' = ''rejected'')"
    using process_order_status [OF assms(2), of r] by (simp add: resolved_def)
  have b: "ord_status order = ''pending'' \<Longrightarrow>
      \<exists>order'. orders (snd (cancel_order True k (fst st))) k = Some order'
               \<and> ord_status order' = ''cancelled''"
    using cancel_order_pending [OF assms(2)] by simp
  note c = modify_order_status [OF assms(2), of a k p q]
  have d: "snd (modify_order a k p q (fst st)) = fst st
            \<and> snd (cancel_order a k (fst st)) = fst st
            \<and> k \<notin> set (snd st)
            \<and> (\<exists>order'. orders (fst (mock_run es st)) k = Some order'
                  \<and> ord_status order' = ord_status order)"
    if r: "resolved order"
  proof -
    have np: "ord_status order \<noteq> ''pending''" using r by (auto simp: resolved_def)
    have "k \<notin> set (snd st)" using inv assms(2) r by (auto simp: exchange_inv_def)
    then show ?thesis
      using modify_order_not_pending [OF assms(2) np] cancel_order_not_pending [OF assms(2) np]
        resolved_kept_run [OF inv assms(2) r]
      by simp
  qed
  from a b c d show ?thesis unfolding resolved_def by blast
qed

lemma scenario_filled:
  "case orders (fst (mock_run scenario_fills scenario_exchange)) 200910000000001 of
     None \<Rightarrow> False
   | Some order \<Rightarrow> ord_status order = ''complete''"
  by code_simp

lemma scenario_placed:
  "case orders (fst (mock_run [Place True (scenario_order_request ''BUY'')] scenario_exchange))
          200910000000001 of
     None \<Rightarrow> False
   | Some order \<Rightarrow> ord_status order = ''pending''"
  by code_simp

theorem order_status_transitions_witness:
  "(\<exists>order'. orders (fst (mock_run
        [Cancel True 200910000000001, Modify True 200910000000001 1 5,
         Place True (scenario_order_request ''BUY'')]
        (mock_run scenario_fills scenario_exchange))) 200910000000001 = Some order'
      \<and> ord_status order' = ''complete'')
   \<and> (\<exists>order'. orders (snd (cancel_order True 200910000000001
          (fst (mock_run [Place True (scenario_order_request ''BUY'')] scenario_exchange))))
          200910000000001 = Some order'
      \<and> ord_status order' = ''cancelled'')"
proof -
  from scenario_filled obtain order where
    o: "orders (fst (mock_run scenario_fills scenario_exchange)) 200910000000001 = Some order"
    and c: "ord_status order = ''complete''"
    by (auto split: option.splits)
  from scenario_placed obtain order0 where
    o0: "orders (fst (mock_run [Place True (scenario_order_request ''BUY'')] scenario_exchange))
          200910000000001 = Some order0"
    and p: "ord_status order0 = ''pending''"
    by (auto split: option.splits)
  have a: "\<exists>order'. orders (fst (mock_run
        [Cancel True 200910000000001, Modify True 200910000000001 1 5,
         Place True (scenario_order_request ''BUY'')]
        (mock_run scenario_fills scenario_exchange))) 200910000000001 = Some order'
      \<and> ord_status order' = ''complete''"
    using order_status_transitions [where hist = scenario_fills
        and prices = "[''3045'' \<mapsto> 1041 / 2]" and k = 200910000000001 and order = order
        and es = "[Cancel True 200910000000001, Modify True 200910000000001 1 5,
         Place True (scenario_order_request ''BUY'')]", OF refl] o c
    by (simp add: scenario_exchange_def)
  have b: "\<exists>order'. orders (snd (cancel_order True 200910000000001
          (fst (mock_run [Place True (scenario_order_request ''BUY'')] scenario_exchange))))
          200910000000001 = Some order'
      \<and> ord_status order' = ''cancelled''"
    using order_status_transitions [where hist = "[Place True (scenario_order_request ''BUY'')]"
        and prices = "[''3045'' \<mapsto> 1041 / 2]" and k = 200910000000001 and order = order0,
        OF refl] o0 p
    by (simp add: scenario_exchange_def)
  from a b show ?thesis by simp
qed

text \<open>
  The claim as stated fails: cancel_order takes a pending order to cancelled, a third
  way out of pending; and the thread of a cancelled order still resolves it, here to
  complete.
\<close>

theorem cancelled_order_counterexample:
  "(case orders (fst (mock_run
        [Place True (scenario_order_request ''BUY''), Cancel True 200910000000001]
        scenario_exchange)) 200910000000001 of
      None \<Rightarrow> False
    | Some order \<Rightarrow> ord_status order = ''cancelled'')
   \<and> (case orders (fst (mock_run
        [Place True (scenario_order_request ''BUY''), Cancel True 200910000000001,
         Resolve (1 / 2) 200910000000001]
        scenario_exchange)) 200910000000001 of
      None \<Rightarrow> False
    | Some order \<Rightarrow> ord_status order = ''complete'')"
  by code_simp

end
